theory Spec2Isabelle
  imports Main
begin

section \<open>Python string operations used by the program\<close>

text \<open>
  A Python \<open>str\<close> is modelled as a \<open>string\<close>; a \<open>char\<close> stands for one code point
  below 256, so the tables below are the restriction of Python's to that range
  (Python also treats U+2028 and U+2029 as line boundaries and some code points from
  U+1680 on as whitespace).
\<close>

definition isspace :: "char \<Rightarrow> bool" where
  \<comment> \<open>\<open>str.isspace\<close> on one character: 0x09-0x0D, 0x1C-0x1F, 0x20, 0x85, 0xA0.\<close>
  "isspace c =
     (let n = (of_char c :: nat)
      in (9 \<le> n \<and> n \<le> 13) \<or> (28 \<le> n \<and> n \<le> 32) \<or> n = 133 \<or> n = 160)"

definition is_linebreak :: "char \<Rightarrow> bool" where
  \<comment> \<open>the boundaries of \<open>str.splitlines\<close>: LF, VT, FF, CR, FS, GS, RS, NEL.\<close>
  "is_linebreak c =
     (let n = (of_char c :: nat)
      in (10 \<le> n \<and> n \<le> 13) \<or> (28 \<le> n \<and> n \<le> 30) \<or> n = 133)"

definition strip :: "string \<Rightarrow> string" where
  \<comment> \<open>\<open>s.strip()\<close>: whitespace removed at both ends.\<close>
  "strip s = rev (dropWhile isspace (rev (dropWhile isspace s)))"

definition startswith :: "string \<Rightarrow> string \<Rightarrow> bool" where
  \<comment> \<open>\<open>s.startswith(p)\<close>\<close>
  "startswith s p = (take (length p) s = p)"

fun splitlines_from :: "string \<Rightarrow> string \<Rightarrow> string list" where
  \<comment> \<open>the first argument holds the characters of the line being read, last one first\<close>
  "splitlines_from cur [] = (if cur = [] then [] else [rev cur])"
| "splitlines_from cur [c] = (if is_linebreak c then [rev cur] else [rev (c # cur)])"
| "splitlines_from cur (c # d # cs) =
     (if c = CHR 0x0D \<and> d = CHR 0x0A then rev cur # splitlines_from [] cs
      else if is_linebreak c then rev cur # splitlines_from [] (d # cs)
      else splitlines_from (c # cur) (d # cs))"

definition splitlines :: "string \<Rightarrow> string list" where
  \<comment> \<open>\<open>s.splitlines()\<close>: CR LF is one boundary, the boundaries are dropped, and a
      boundary at the very end opens no further line.\<close>
  "splitlines s = splitlines_from [] s"

fun split_on :: "char \<Rightarrow> string \<Rightarrow> string list" where
  \<comment> \<open>\<open>s.split(sep)\<close> for a separator of one character: never the empty list.\<close>
  "split_on sep [] = [[]]"
| "split_on sep (c # cs) =
     (if c = sep then [] # split_on sep cs
      else (case split_on sep cs of
              [] \<Rightarrow> [[c]]
            | w # ws \<Rightarrow> (c # w) # ws))"

definition getitem :: "'a list \<Rightarrow> nat \<Rightarrow> 'a option" where
  \<comment> \<open>\<open>xs[i]\<close> for an index that is not negative; \<open>None\<close> is Python's IndexError.\<close>
  "getitem xs i = (if i < length xs then Some (xs ! i) else None)"

definition truthy :: "string option \<Rightarrow> bool" where
  \<comment> \<open>the truth value of a \<open>str | None\<close>: \<open>None\<close> and the empty string are false.\<close>
  "truthy v = (case v of None \<Rightarrow> False | Some s \<Rightarrow> s \<noteq> [])"

section \<open>Configuration constants\<close>

definition KEYRING_SERVICE_NAME :: string where
  "KEYRING_SERVICE_NAME = ''nmcli-wifi''"

definition NMCLI_WIFI_FIELDS :: string where
  "NMCLI_WIFI_FIELDS = ''active,ssid''"

definition NMCLI_CONNECTION_FIELDS :: string where
  "NMCLI_CONNECTION_FIELDS = ''active,uuid''"

definition NMCLI_PASSWORD_FIELD :: string where
  "NMCLI_PASSWORD_FIELD = ''802-11-wireless-security.psk''"

section \<open>Exceptions, the outside world and the effects of a run\<close>

text \<open>
  What can be raised. The first five classes are subclasses of Python's \<open>Exception\<close>:
  \<open>CalledProcessError\<close> carries the return code, the command, and the decoded
  standard output and standard error; \<open>KeyringError\<close> is the base class of the
  keyring library's errors; \<open>OtherException\<close> stands for every other subclass of
  \<open>Exception\<close>. The last two derive from \<open>BaseException\<close> only: the cancellation of
  the task (\<open>asyncio.CancelledError\<close>) and the interrupt from the keyboard. An
  \<open>except Exception\<close> clause catches the first five and lets the last two pass.
\<close>

datatype exn =
    CalledProcessError int string string string
  | TimeoutError
  | IndexError
  | KeyringError
  | OtherException
  | CancelledError
  | KeyboardInterrupt

definition is_Exception :: "exn \<Rightarrow> bool" where
  \<comment> \<open>\<open>isinstance(e, Exception)\<close>\<close>
  "is_Exception e =
     (case e of
        CancelledError \<Rightarrow> False
      | KeyboardInterrupt \<Rightarrow> False
      | _ \<Rightarrow> True)"

text \<open>
  What running one shell command does: \<open>create_subprocess_shell\<close> raises, or the
  process starts and \<open>communicate\<close> raises (the process is then not known to have
  ended), or the process ends with a return code, its standard output and its standard
  error. Both outputs are taken to be valid UTF-8 and are given decoded.
\<close>

datatype proc =
    SpawnRaises exn
  | WaitRaises exn
  | Exited int string string

text \<open>
  The collaborators of the program: the shell (what it does with each command line),
  the credential store (looked up and written by service name and account; a call
  returns or raises) and the text Python prints for an exception.
\<close>

record env =
  shell :: "string \<Rightarrow> proc"
  kr_get :: "string \<Rightarrow> string \<Rightarrow> exn + string option"
  kr_set :: "string \<Rightarrow> string \<Rightarrow> string \<Rightarrow> exn option"
  exn_str :: "exn \<Rightarrow> string"

datatype level = DEBUG | INFO | ERROR | CRITICAL

text \<open>
  The effects of a run, in the order they happen: a log record, a subprocess started,
  a subprocess ended (with its return code), a call of \<open>keyring.get_password\<close> and of
  \<open>keyring.set_password\<close>, a modal error dialog (title, message) and the window with
  the QR code (the encoded text, the label above the image).
\<close>

datatype event =
    Log level string
  | Spawn string
  | Completed string int
  | KeyringGet string string
  | KeyringSet string string string
  | ShowError string string
  | QrWindow string string

text \<open>A computation ends with an exception or a value, and has emitted a list of events.\<close>

type_synonym 'a io = "(exn + 'a) \<times> event list"

definition ret :: "'a \<Rightarrow> 'a io" where
  "ret x = (Inr x, [])"

definition raise :: "exn \<Rightarrow> 'a io" where
  "raise e = (Inl e, [])"

definition emit :: "event \<Rightarrow> unit io" where
  "emit ev = (Inr (), [ev])"

definition seq :: "'a io \<Rightarrow> ('a \<Rightarrow> 'b io) \<Rightarrow> 'b io" where
  \<comment> \<open>one statement after another: an exception skips the rest.\<close>
  "seq m f =
     (case m of
        (Inl e, t) \<Rightarrow> (Inl e, t)
      | (Inr x, t) \<Rightarrow> (case f x of (r, t') \<Rightarrow> (r, t @ t')))"

definition try_except :: "'a io \<Rightarrow> (exn \<Rightarrow> 'a io) \<Rightarrow> 'a io" where
  \<comment> \<open>\<open>try: m except ...: h e\<close>; a handler that does not match re-raises.\<close>
  "try_except m h =
     (case m of
        (Inl e, t) \<Rightarrow> (case h e of (r, t') \<Rightarrow> (r, t @ t'))
      | (Inr x, t) \<Rightarrow> (Inr x, t))"

definition logger :: "level \<Rightarrow> string \<Rightarrow> unit io" where
  "logger lv msg = emit (Log lv msg)"

definition quoted :: "string \<Rightarrow> string" where
  \<comment> \<open>\<open>'%s'\<close>: the text between two apostrophes.\<close>
  "quoted s = [CHR 0x27] @ s @ [CHR 0x27]"

section \<open>The program\<close>

definition run_command :: "env \<Rightarrow> string \<Rightarrow> bool \<Rightarrow> string io" where
  "run_command env command check =
     seq (logger DEBUG (''Running command: '' @ command)) (\<lambda>_.
     case shell env command of
       SpawnRaises e \<Rightarrow> raise e
     | WaitRaises e \<Rightarrow> seq (emit (Spawn command)) (\<lambda>_. raise e)
     | Exited returncode stdout stderr \<Rightarrow>
         seq (emit (Spawn command)) (\<lambda>_.
         seq (emit (Completed command returncode)) (\<lambda>_.
         if check \<and> returncode \<noteq> 0 then
           seq (logger ERROR
                  (''Command failed: '' @ command @ '' - Error: '' @ strip stderr)) (\<lambda>_.
           raise (CalledProcessError returncode command stdout stderr))
         else ret (strip stdout))))"

fun ssid_loop :: "string list \<Rightarrow> string option io" where
  \<comment> \<open>the \<open>for\<close> loop of \<open>get_current_ssid\<close>: \<open>Some\<close> is the \<open>return\<close> inside it.\<close>
  "ssid_loop [] = ret None"
| "ssid_loop (line # rest) =
     (if startswith line ''yes'' then
        (case getitem (split_on (CHR '':'') line) 1 of
           None \<Rightarrow> raise IndexError
         | Some ssid \<Rightarrow>
             seq (logger INFO (''Connected SSID: '' @ ssid)) (\<lambda>_. ret (Some ssid)))
      else ssid_loop rest)"

definition wifi_list_command :: string where
  \<comment> \<open>the f-string of line 64\<close>
  "wifi_list_command = ''nmcli -t -f '' @ NMCLI_WIFI_FIELDS @ '' dev wifi''"

definition get_current_ssid :: "env \<Rightarrow> string option io" where
  "get_current_ssid env =
     try_except
       (seq (run_command env wifi_list_command True)
          (\<lambda>output. ssid_loop (splitlines output)))
       (\<lambda>e. case e of
          CalledProcessError _ _ _ _ \<Rightarrow>
            seq (logger ERROR (''Command failed: '' @ exn_str env e)) (\<lambda>_. ret None)
        | TimeoutError \<Rightarrow>
            seq (logger ERROR (''Command timed out: '' @ exn_str env e)) (\<lambda>_. ret None)
        | _ \<Rightarrow>
            if is_Exception e then
              seq (logger ERROR (''Unexpected error: '' @ exn_str env e)) (\<lambda>_. ret None)
            else raise e)"

fun uuid_loop :: "string list \<Rightarrow> string option io" where
  \<comment> \<open>the \<open>for\<close> loop of \<open>get_wifi_password\<close>: \<open>Some\<close> is the \<open>break\<close>, \<open>None\<close> its
      \<open>else\<close> clause.\<close>
  "uuid_loop [] = ret None"
| "uuid_loop (line # rest) =
     (if startswith line ''yes'' then
        (case getitem (split_on (CHR '':'') line) 1 of
           None \<Rightarrow> raise IndexError
         | Some uuid \<Rightarrow> ret (Some uuid))
      else uuid_loop rest)"

definition connection_list_command :: string where
  \<comment> \<open>the f-string of line 89\<close>
  "connection_list_command =
     ''nmcli -t -f '' @ NMCLI_CONNECTION_FIELDS @ '' connection show''"

definition pkexec_command :: "string \<Rightarrow> string" where
  \<comment> \<open>the f-string of line 97\<close>
  "pkexec_command uuid =
     ''pkexec nmcli -s -g '' @ NMCLI_PASSWORD_FIELD @ '' connection show '' @ uuid"

definition get_wifi_password :: "env \<Rightarrow> string \<Rightarrow> string option io" where
  "get_wifi_password env ssid =
     try_except
       (seq (run_command env connection_list_command True) (\<lambda>output.
        seq (uuid_loop (splitlines output)) (\<lambda>found.
        case found of
          None \<Rightarrow> ret None
        | Some uuid \<Rightarrow>
            seq (run_command env (pkexec_command uuid) True) (\<lambda>password.
            seq (logger INFO (''Password retrieved for SSID '' @ quoted ssid)) (\<lambda>_.
            ret (Some (strip password)))))))
       (\<lambda>e.
          if is_Exception e then
            seq (logger ERROR
                   (''Failed to retrieve password for SSID '' @ quoted ssid @ '': ''
                      @ exn_str env e)) (\<lambda>_.
            ret None)
          else raise e)"

definition wifi_config :: "string \<Rightarrow> string \<Rightarrow> string" where
  \<comment> \<open>the f-string of line 113: its literal parts and its two fields, joined.\<close>
  "wifi_config ssid password =
     concat [''WIFI:T:WPA;S:'', ssid, '';P:'', password, '';;'']"

definition show_qr_code :: "string \<Rightarrow> string \<Rightarrow> unit io" where
  \<comment> \<open>the QR library encodes \<open>wifi_config\<close>; the window shows the image under a label.\<close>
  "show_qr_code ssid password =
     emit (QrWindow (wifi_config ssid password) (''Connect to: '' @ ssid))"

definition showerror :: "string \<Rightarrow> string \<Rightarrow> unit io" where
  "showerror title message = emit (ShowError title message)"

definition keyring_get_password :: "env \<Rightarrow> string \<Rightarrow> string \<Rightarrow> string option io" where
  "keyring_get_password env service username =
     seq (emit (KeyringGet service username)) (\<lambda>_.
     case kr_get env service username of
       Inl e \<Rightarrow> raise e
     | Inr v \<Rightarrow> ret v)"

definition keyring_set_password :: "env \<Rightarrow> string \<Rightarrow> string \<Rightarrow> string \<Rightarrow> unit io" where
  "keyring_set_password env service username password =
     seq (emit (KeyringSet service username password)) (\<lambda>_.
     case kr_set env service username password of
       Some e \<Rightarrow> raise e
     | None \<Rightarrow> ret ())"

definition no_ssid :: "unit io" where
  \<comment> \<open>lines 156-158\<close>
  "no_ssid =
     seq (logger ERROR ''No SSID detected. Are you connected to a Wi-Fi network?'') (\<lambda>_.
     showerror ''Error'' ''No SSID detected. Connect to a Wi-Fi network.'')"

definition password_not_found :: "string \<Rightarrow> unit io" where
  \<comment> \<open>lines 170-171\<close>
  "password_not_found ssid =
     seq (logger ERROR (''Password not found for SSID '' @ quoted ssid @ ''.'')) (\<lambda>_.
     showerror ''Error'' (''Password not found for SSID '' @ quoted ssid @ ''.''))"

definition critical_error :: "env \<Rightarrow> exn \<Rightarrow> unit io" where
  \<comment> \<open>lines 173-174\<close>
  "critical_error env e =
     seq (logger CRITICAL (''Unexpected error: '' @ exn_str env e)) (\<lambda>_.
     showerror ''Critical Error''
       (''An unexpected error occurred:'' @ [CHR 0x0A] @ exn_str env e))"

definition fetch_and_cache :: "env \<Rightarrow> string \<Rightarrow> string option io" where
  \<comment> \<open>lines 163-165: the branch taken when the credential store has no password.\<close>
  "fetch_and_cache env ssid =
     seq (get_wifi_password env ssid) (\<lambda>password.
     case password of
       None \<Rightarrow> ret password
     | Some p \<Rightarrow>
         if p = [] then ret password
         else seq (keyring_set_password env KEYRING_SERVICE_NAME ssid p) (\<lambda>_.
              ret password))"

text \<open>
  \<open>main\<close> first selects the Secret Service backend of the keyring library
  (\<open>keyring.set_keyring\<close>, before the \<open>try\<close>); this leaves no event. A dialog and
  the QR window block until the user closes them; the model records that they were
  shown. Failures of the GUI toolkit and of the QR library are not modelled.
\<close>

definition main :: "env \<Rightarrow> unit io" where
  "main env =
     try_except
       (seq (get_current_ssid env) (\<lambda>ssid_opt.
        case ssid_opt of
          None \<Rightarrow> no_ssid
        | Some ssid \<Rightarrow>
            if ssid = [] then no_ssid
            else
              seq (keyring_get_password env KEYRING_SERVICE_NAME ssid) (\<lambda>cached.
              seq (if truthy cached then ret cached else fetch_and_cache env ssid)
                (\<lambda>password.
              case password of
                None \<Rightarrow> password_not_found ssid
              | Some p \<Rightarrow>
                  if p = [] then password_not_found ssid
                  else show_qr_code ssid p))))
       (\<lambda>e. case e of
          CalledProcessError _ _ _ _ \<Rightarrow> critical_error env e
        | KeyringError \<Rightarrow> critical_error env e
        | _ \<Rightarrow> raise e)"

section \<open>Observing a run\<close>

text \<open>
  The properties below speak of what a run did: which commands it started, which dialogs and
  windows it showed, what it asked of the credential store. \<open>actions\<close> keeps these
  events of a trace and drops the log records; the functions after it read one kind of
  event off a trace.
\<close>

fun is_log :: "event \<Rightarrow> bool" where
  "is_log (Log _ _) = True"
| "is_log _ = False"

definition actions :: "event list \<Rightarrow> event list" where
  "actions tr = filter (\<lambda>ev. \<not> is_log ev) tr"

fun spawned :: "event list \<Rightarrow> string list" where
  \<comment> \<open>the commands started, in order\<close>
  "spawned [] = []"
| "spawned (Spawn c # tr) = c # spawned tr"
| "spawned (_ # tr) = spawned tr"

fun dialogs :: "event list \<Rightarrow> (string \<times> string) list" where
  \<comment> \<open>the error dialogs shown, in order\<close>
  "dialogs [] = []"
| "dialogs (ShowError title message # tr) = (title, message) # dialogs tr"
| "dialogs (_ # tr) = dialogs tr"

fun windows :: "event list \<Rightarrow> (string \<times> string) list" where
  \<comment> \<open>the QR windows shown, in order\<close>
  "windows [] = []"
| "windows (QrWindow payload label # tr) = (payload, label) # windows tr"
| "windows (_ # tr) = windows tr"

fun keyring_sets :: "event list \<Rightarrow> (string \<times> string \<times> string) list" where
  \<comment> \<open>the calls of \<open>keyring.set_password\<close>, in order\<close>
  "keyring_sets [] = []"
| "keyring_sets (KeyringSet service username password # tr) =
     (service, username, password) # keyring_sets tr"
| "keyring_sets (_ # tr) = keyring_sets tr"

fun sequential :: "string option \<Rightarrow> event list \<Rightarrow> bool" where
  \<comment> \<open>the first argument is the command in flight: a command starts only when none
      is, and only the command in flight ends.\<close>
  "sequential cur [] = True"
| "sequential cur (Spawn c # tr) = (cur = None \<and> sequential (Some c) tr)"
| "sequential cur (Completed c rc # tr) = (cur = Some c \<and> sequential None tr)"
| "sequential cur (_ # tr) = sequential cur tr"

definition active_field :: "string \<Rightarrow> string" where
  \<comment> \<open>the first colon-delimited field of a line\<close>
  "active_field line = takeWhile (\<lambda>c. c \<noteq> CHR '':'') line"

section \<open>Closed forms\<close>

text \<open>
  What the two lookups return and which events a run consists of, written out as
  functions of the environment. None of these defines the program: each is proved equal
  to what the program above computes (\<open>ssid_loop_find\<close>,
  \<open>uuid_loop_find\<close>, \<open>get_current_ssid_result\<close>, \<open>get_wifi_password_result\<close>,
  \<open>main_result\<close>, \<open>main_actions_eq\<close>), and the proofs below go through them.
\<close>

definition first_yes :: "string list \<Rightarrow> string option" where
  \<comment> \<open>the first line that starts with \<open>yes\<close>\<close>
  "first_yes ls = find (\<lambda>line. startswith line ''yes'') ls"

definition second_field :: "string \<Rightarrow> string option" where
  \<comment> \<open>\<open>line.split(":")[1]\<close>, \<open>None\<close> when there is no colon\<close>
  "second_field line = getitem (split_on (CHR '':'') line) 1"

definition selected :: "string list \<Rightarrow> string option" where
  "selected ls = (case first_yes ls of None \<Rightarrow> None | Some line \<Rightarrow> second_field line)"

definition proc_actions :: "env \<Rightarrow> string \<Rightarrow> event list" where
  \<comment> \<open>the events of \<open>run_command\<close>, log records apart\<close>
  "proc_actions env c =
     (case shell env c of
        SpawnRaises e \<Rightarrow> []
      | WaitRaises e \<Rightarrow> [Spawn c]
      | Exited rc out err \<Rightarrow> [Spawn c, Completed c rc])"

definition proc_output :: "env \<Rightarrow> string \<Rightarrow> string option" where
  \<comment> \<open>what \<open>run_command\<close> returns with \<open>check\<close> set, \<open>None\<close> when it raises\<close>
  "proc_output env c =
     (case shell env c of
        Exited rc out err \<Rightarrow> if rc = 0 then Some (strip out) else None
      | _ \<Rightarrow> None)"

definition proc_signal :: "env \<Rightarrow> string \<Rightarrow> exn option" where
  \<comment> \<open>what \<open>run_command\<close> raises that an \<open>except Exception\<close> clause lets pass\<close>
  "proc_signal env c =
     (case shell env c of
        SpawnRaises e \<Rightarrow> if is_Exception e then None else Some e
      | WaitRaises e \<Rightarrow> if is_Exception e then None else Some e
      | Exited rc out err \<Rightarrow> None)"

definition detected :: "env \<Rightarrow> string option" where
  "detected env =
     (case proc_output env wifi_list_command of
        None \<Rightarrow> None
      | Some out \<Rightarrow> selected (splitlines out))"

definition active_uuid :: "env \<Rightarrow> string option" where
  "active_uuid env =
     (case proc_output env connection_list_command of
        None \<Rightarrow> None
      | Some out \<Rightarrow> selected (splitlines out))"

definition fetched :: "env \<Rightarrow> string option" where
  "fetched env =
     (case active_uuid env of
        None \<Rightarrow> None
      | Some uuid \<Rightarrow> map_option strip (proc_output env (pkexec_command uuid)))"

definition fetch_signal :: "env \<Rightarrow> exn option" where
  \<comment> \<open>what leaves \<open>get_wifi_password\<close>: raised at the listing, or at the privileged
      command when the listing gives a UUID\<close>
  "fetch_signal env =
     (case proc_signal env connection_list_command of
        Some e \<Rightarrow> Some e
      | None \<Rightarrow>
          (case active_uuid env of
             None \<Rightarrow> None
           | Some uuid \<Rightarrow> proc_signal env (pkexec_command uuid)))"

definition ssid_result :: "env \<Rightarrow> exn + string option" where
  \<comment> \<open>how \<open>get_current_ssid\<close> ends\<close>
  "ssid_result env =
     (case proc_signal env wifi_list_command of
        Some e \<Rightarrow> Inl e
      | None \<Rightarrow> Inr (detected env))"

definition fetch_result :: "env \<Rightarrow> exn + string option" where
  \<comment> \<open>how \<open>get_wifi_password\<close> ends\<close>
  "fetch_result env =
     (case fetch_signal env of
        Some e \<Rightarrow> Inl e
      | None \<Rightarrow> Inr (fetched env))"

definition fetch_actions :: "env \<Rightarrow> event list" where
  "fetch_actions env =
     proc_actions env connection_list_command @
     (case active_uuid env of
        None \<Rightarrow> []
      | Some uuid \<Rightarrow> proc_actions env (pkexec_command uuid))"

definition handled :: "exn \<Rightarrow> bool" where
  \<comment> \<open>the exceptions the \<open>except\<close> clause of \<open>main\<close> catches\<close>
  "handled e = (case e of CalledProcessError _ _ _ _ \<Rightarrow> True | KeyringError \<Rightarrow> True | _ \<Rightarrow> False)"

definition critical_dialog :: "env \<Rightarrow> exn \<Rightarrow> event" where
  "critical_dialog env e =
     ShowError ''Critical Error''
       (''An unexpected error occurred:'' @ [CHR 0x0A] @ exn_str env e)"

definition no_ssid_dialog :: event where
  "no_ssid_dialog = ShowError ''Error'' ''No SSID detected. Connect to a Wi-Fi network.''"

definition not_found_dialog :: "string \<Rightarrow> event" where
  "not_found_dialog ssid =
     ShowError ''Error'' (''Password not found for SSID '' @ quoted ssid @ ''.'')"

definition qr_window :: "string \<Rightarrow> string \<Rightarrow> event" where
  "qr_window ssid p = QrWindow (wifi_config ssid p) (''Connect to: '' @ ssid)"

definition after_raise :: "env \<Rightarrow> exn \<Rightarrow> event list" where
  "after_raise env e = (if handled e then [critical_dialog env e] else [])"

definition store_and_show :: "env \<Rightarrow> string \<Rightarrow> string \<Rightarrow> event list" where
  "store_and_show env ssid p =
     KeyringSet KEYRING_SERVICE_NAME ssid p #
     (case kr_set env KEYRING_SERVICE_NAME ssid p of
        Some e \<Rightarrow> after_raise env e
      | None \<Rightarrow> [qr_window ssid p])"

definition fetch_tail :: "env \<Rightarrow> string \<Rightarrow> event list" where
  \<comment> \<open>what \<open>main\<close> does after \<open>get_wifi_password\<close>\<close>
  "fetch_tail env ssid =
     (case fetch_result env of
        Inl e \<Rightarrow> after_raise env e
      | Inr None \<Rightarrow> [not_found_dialog ssid]
      | Inr (Some p) \<Rightarrow>
          if p = [] then [not_found_dialog ssid] else store_and_show env ssid p)"

definition after_fetch :: "env \<Rightarrow> string \<Rightarrow> event list" where
  "after_fetch env ssid = fetch_actions env @ fetch_tail env ssid"

definition after_lookup :: "env \<Rightarrow> string \<Rightarrow> event list" where
  "after_lookup env ssid =
     (case kr_get env KEYRING_SERVICE_NAME ssid of
        Inl e \<Rightarrow> after_raise env e
      | Inr None \<Rightarrow> after_fetch env ssid
      | Inr (Some c) \<Rightarrow> if c \<noteq> [] then [qr_window ssid c] else after_fetch env ssid)"

definition ssid_tail :: "env \<Rightarrow> event list" where
  \<comment> \<open>what \<open>main\<close> does after \<open>get_current_ssid\<close>\<close>
  "ssid_tail env =
     (case ssid_result env of
        Inl e \<Rightarrow> after_raise env e
      | Inr None \<Rightarrow> [no_ssid_dialog]
      | Inr (Some ssid) \<Rightarrow>
          if ssid = [] then [no_ssid_dialog]
          else KeyringGet KEYRING_SERVICE_NAME ssid # after_lookup env ssid)"

definition main_actions :: "env \<Rightarrow> event list" where
  "main_actions env = proc_actions env wifi_list_command @ ssid_tail env"

section \<open>Sample environments\<close>

definition sample_env ::
  "string \<Rightarrow> string \<Rightarrow> proc \<Rightarrow> exn + string option \<Rightarrow> exn option \<Rightarrow> env" where
  \<comment> \<open>both listings exit with 0 and print the given text; every other command, the
      lookup and the store answer as given.\<close>
  "sample_env wifi_out conn_out pk cached stored =
     \<lparr> shell = (\<lambda>c. if c = wifi_list_command then Exited 0 wifi_out []
                     else if c = connection_list_command then Exited 0 conn_out []
                     else pk),
       kr_get = (\<lambda>service username. cached),
       kr_set = (\<lambda>service username password. stored),
       exn_str = (\<lambda>e. ''error'') \<rparr>"

definition cancelled_env :: env where
  \<comment> \<open>the task is cancelled while a command is awaited\<close>
  "cancelled_env =
     \<lparr> shell = (\<lambda>c. WaitRaises CancelledError),
       kr_get = (\<lambda>service username. Inr None),
       kr_set = (\<lambda>service username password. None),
       exn_str = (\<lambda>e. ''error'') \<rparr>"

definition colon_output :: string where
  \<comment> \<open>what \<open>nmcli -t -f active,ssid dev wifi\<close> prints when the network in use is
      named \<open>My:Net\<close>: the terse mode escapes the colon with a backslash.\<close>
  "colon_output =
     ''no:Cafe'' @ [CHR 0x0A] @ ''yes:My'' @ [CHR 0x5C] @ '':Net'' @ [CHR 0x0A]"

definition two_connections :: string where
  \<comment> \<open>a connection listing with one profile in use\<close>
  "two_connections = ''no:u0'' @ [CHR 0x0A] @ ''yes:u1'' @ [CHR 0x0A]"

section \<open>The failures of a run\<close>

fun exited_nonzero :: "event list \<Rightarrow> bool" where
  \<comment> \<open>some command of the trace ended with a return code other than 0\<close>
  "exited_nonzero [] = False"
| "exited_nonzero (Completed c rc # tr) = (rc \<noteq> 0 \<or> exited_nonzero tr)"
| "exited_nonzero (_ # tr) = exited_nonzero tr"

fun stops_at_failure :: "event list \<Rightarrow> bool" where
  \<comment> \<open>after a command that ended with a code other than 0 no command is started\<close>
  "stops_at_failure [] = True"
| "stops_at_failure (Completed c rc # tr) =
     ((rc = 0 \<or> spawned tr = []) \<and> stops_at_failure tr)"
| "stops_at_failure (_ # tr) = stops_at_failure tr"

definition ssid_missing :: "env \<Rightarrow> bool" where
  \<comment> \<open>\<open>get_current_ssid\<close> returns \<open>None\<close> or the empty string\<close>
  "ssid_missing env =
     (case fst (get_current_ssid env) of
        Inl e \<Rightarrow> False
      | Inr s \<Rightarrow> \<not> truthy s)"

definition lookup :: "env \<Rightarrow> (string \<times> (exn + string option)) option" where
  \<comment> \<open>the SSID a run detects and what the credential store answers for it, when
      the run gets that far\<close>
  "lookup env =
     (case fst (get_current_ssid env) of
        Inr (Some ssid) \<Rightarrow>
          if ssid = [] then None
          else Some (ssid, kr_get env KEYRING_SERVICE_NAME ssid)
      | _ \<Rightarrow> None)"

definition password_missing :: "env \<Rightarrow> bool" where
  \<comment> \<open>nothing is cached and \<open>get_wifi_password\<close> returns \<open>None\<close> or the empty string\<close>
  "password_missing env =
     (case lookup env of
        Some (ssid, Inr cached) \<Rightarrow>
          \<not> truthy cached \<and>
          (case fst (get_wifi_password env ssid) of
             Inr got \<Rightarrow> \<not> truthy got
           | Inl e \<Rightarrow> False)
      | _ \<Rightarrow> False)"

definition store_error :: "env \<Rightarrow> bool" where
  \<comment> \<open>the lookup, or the store of a fetched password, raises an exception of a class
      that the \<open>except\<close> clause of \<open>main\<close> names\<close>
  "store_error env =
     (case lookup env of
        Some (ssid, Inl e) \<Rightarrow> handled e
      | Some (ssid, Inr cached) \<Rightarrow>
          \<not> truthy cached \<and>
          (case fst (get_wifi_password env ssid) of
             Inr (Some p) \<Rightarrow>
               p \<noteq> [] \<and>
               (case kr_set env KEYRING_SERVICE_NAME ssid p of
                  Some e \<Rightarrow> handled e
                | None \<Rightarrow> False)
           | _ \<Rightarrow> False)
      | None \<Rightarrow> False)"

section \<open>The loops and the command runner\<close>

lemma ssid_loop_find:
  "ssid_loop ls =
     (case first_yes ls of
        None \<Rightarrow> (Inr None, [])
      | Some line \<Rightarrow>
          (case second_field line of
             None \<Rightarrow> (Inl IndexError, [])
           | Some ssid \<Rightarrow> (Inr (Some ssid), [Log INFO (''Connected SSID: '' @ ssid)])))"
  by (induction ls)
     (simp_all add: first_yes_def second_field_def ret_def raise_def seq_def logger_def emit_def
        split: option.splits)

lemma uuid_loop_find:
  "uuid_loop ls =
     (case first_yes ls of
        None \<Rightarrow> (Inr None, [])
      | Some line \<Rightarrow>
          (case second_field line of
             None \<Rightarrow> (Inl IndexError, [])
           | Some uuid \<Rightarrow> (Inr (Some uuid), [])))"
  by (induction ls)
     (simp_all add: first_yes_def second_field_def ret_def raise_def split: option.splits)

lemma run_command_cases:
  "run_command env c check =
     (case shell env c of
        SpawnRaises e \<Rightarrow> (Inl e, [Log DEBUG (''Running command: '' @ c)])
      | WaitRaises e \<Rightarrow> (Inl e, [Log DEBUG (''Running command: '' @ c), Spawn c])
      | Exited rc out err \<Rightarrow>
          if check \<and> rc \<noteq> 0 then
            (Inl (CalledProcessError rc c out err),
             [Log DEBUG (''Running command: '' @ c), Spawn c, Completed c rc,
              Log ERROR (''Command failed: '' @ c @ '' - Error: '' @ strip err)])
          else (Inr (strip out), [Log DEBUG (''Running command: '' @ c), Spawn c, Completed c rc]))"
  by (auto simp: run_command_def seq_def logger_def emit_def raise_def ret_def split: proc.splits)

lemma actions_simps:
  "actions [] = []"
  "actions (ev # tr) = (if is_log ev then actions tr else ev # actions tr)"
  by (simp_all add: actions_def)

lemma get_current_ssid_result: "fst (get_current_ssid env) = ssid_result env"
  by (simp add: get_current_ssid_def run_command_cases ssid_loop_find detected_def
        proc_output_def selected_def ssid_result_def proc_signal_def is_Exception_def
        try_except_def seq_def ret_def raise_def logger_def emit_def
        split: proc.splits exn.splits option.splits)

lemma get_current_ssid_actions:
  "actions (snd (get_current_ssid env)) = proc_actions env wifi_list_command"
  by (simp add: get_current_ssid_def run_command_cases ssid_loop_find proc_actions_def
        is_Exception_def
        try_except_def seq_def ret_def raise_def logger_def emit_def actions_def
        split: proc.splits exn.splits option.splits)

lemma get_wifi_password_result: "fst (get_wifi_password env ssid) = fetch_result env"
  by (simp add: get_wifi_password_def run_command_cases uuid_loop_find fetched_def
        active_uuid_def proc_output_def selected_def fetch_result_def fetch_signal_def
        proc_signal_def is_Exception_def
        try_except_def seq_def ret_def raise_def logger_def emit_def
        split: proc.splits exn.splits option.splits)

lemma get_wifi_password_actions:
  "actions (snd (get_wifi_password env ssid)) = fetch_actions env"
  by (simp add: get_wifi_password_def run_command_cases uuid_loop_find fetch_actions_def
        active_uuid_def proc_output_def selected_def proc_actions_def is_Exception_def
        try_except_def seq_def ret_def raise_def logger_def emit_def actions_def
        split: proc.splits exn.splits option.splits)

lemma get_wifi_password_first:
  "\<exists>rest. snd (get_wifi_password env ssid) =
     Log DEBUG (''Running command: '' @ connection_list_command) # rest"
  by (simp add: get_wifi_password_def run_command_cases uuid_loop_find
        try_except_def seq_def ret_def raise_def logger_def emit_def
        split: proc.splits exn.splits option.splits)

lemma ssid_result_Inr:
  "(ssid_result env = Inr s) = (proc_signal env wifi_list_command = None \<and> detected env = s)"
  by (simp add: ssid_result_def split: option.splits)

lemma fetch_result_Inr:
  "(fetch_result env = Inr p) = (fetch_signal env = None \<and> fetched env = p)"
  by (simp add: fetch_result_def split: option.splits)

lemma get_current_ssid_eq:
  obtains t where "get_current_ssid env = (ssid_result env, t)"
    and "actions t = proc_actions env wifi_list_command"
  using get_current_ssid_result [of env] get_current_ssid_actions [of env]
  by (cases "get_current_ssid env") simp

lemma get_wifi_password_eq:
  obtains t where "get_wifi_password env ssid = (fetch_result env, t)"
    and "actions t = fetch_actions env"
  using get_wifi_password_result [of env ssid] get_wifi_password_actions [of env ssid]
  by (cases "get_wifi_password env ssid") simp

lemma actions_append: "actions (a @ b) = actions a @ actions b"
  by (simp add: actions_def)

lemma main_actions_eq: "actions (snd (main env)) = main_actions env"
proof -
  obtain t1 where g: "get_current_ssid env = (ssid_result env, t1)"
    and a1: "actions t1 = proc_actions env wifi_list_command"
    by (rule get_current_ssid_eq)
  have fetch: "\<And>ssid. \<exists>t2. get_wifi_password env ssid = (fetch_result env, t2)
      \<and> actions t2 = fetch_actions env"
    by (metis get_wifi_password_eq)
  show ?thesis
  proof (cases "ssid_result env")
    case (Inl e)
    with a1 show ?thesis
      by (simp add: main_def g main_actions_def ssid_tail_def seq_def try_except_def raise_def
          critical_error_def after_raise_def handled_def critical_dialog_def
          logger_def emit_def showerror_def actions_append actions_simps
          split: exn.splits)
  next
    case (Inr found)
    show ?thesis
    proof (cases found)
      case None
      with Inr a1 show ?thesis
        by (simp add: main_def g main_actions_def ssid_tail_def seq_def try_except_def no_ssid_def
            logger_def emit_def showerror_def actions_append actions_simps
            no_ssid_dialog_def)
    next
      case (Some ssid)
      obtain t2 where w: "get_wifi_password env ssid = (fetch_result env, t2)"
        and a2: "actions t2 = fetch_actions env"
        using fetch by blast
      from Inr Some a1 a2 show ?thesis
        by (simp add: main_def g w main_actions_def ssid_tail_def after_lookup_def after_fetch_def fetch_tail_def
            store_and_show_def
            after_raise_def handled_def critical_dialog_def not_found_dialog_def
            qr_window_def
            no_ssid_dialog_def fetch_and_cache_def keyring_get_password_def
            keyring_set_password_def show_qr_code_def password_not_found_def
            critical_error_def
            no_ssid_def truthy_def raise_def ret_def
            seq_def try_except_def logger_def emit_def showerror_def actions_append
            actions_simps
            split: sum.splits option.splits exn.splits)
    qed
  qed
qed

lemma commands_distinct:
  "wifi_list_command \<noteq> connection_list_command"
  "pkexec_command u \<noteq> wifi_list_command"
  "pkexec_command u \<noteq> connection_list_command"
  by (simp_all add: wifi_list_command_def connection_list_command_def pkexec_command_def
      NMCLI_WIFI_FIELDS_def NMCLI_CONNECTION_FIELDS_def NMCLI_PASSWORD_FIELD_def)

section \<open>The QR payload\<close>

text \<open>
  C1. For every SSID \<open>s\<close> and password \<open>p\<close>, the text \<open>show_qr_code\<close> encodes is
  exactly \<open>WIFI:T:WPA;S:\<close>, \<open>s\<close>, \<open>;P:\<close>, \<open>p\<close>, \<open>;;\<close> in this order, with \<open>s\<close> and
  \<open>p\<close> unchanged; showing the window is all the function does.
\<close>

theorem show_qr_code_payload:
  "show_qr_code s p =
     (Inr (), [QrWindow (''WIFI:T:WPA;S:'' @ s @ '';P:'' @ p @ '';;'') (''Connect to: '' @ s)])"
  by (simp add: show_qr_code_def wifi_config_def emit_def)

section \<open>Reading the active SSID\<close>

text \<open>
  C2. \<open>get_current_ssid\<close> is to return the SSID of the network in use in full. For a
  network named \<open>My:Net\<close> the listing holds the line \<open>yes:My\:Net\<close>, and the function
  returns \<open>My\\<close>, the text between the first and the second colon: the SSID is cut at
  its colon.
\<close>

theorem get_current_ssid_truncates_at_colon:
  "fst (get_current_ssid
          (sample_env colon_output ''yes:u1'' (Exited 0 ''secret'' []) (Inr None) None))
     = Inr (Some (''My'' @ [CHR 0x5C]))"
  by code_simp

section \<open>What the lookups catch\<close>

text \<open>
  C8, as stated, fails: the handlers of both lookups are \<open>except Exception\<close> clauses,
  and the cancellation of the task while a command is awaited is not an \<open>Exception\<close>.
  Raised at the wait for the Wi-Fi listing it leaves \<open>get_current_ssid\<close>, and raised
  at the wait for the privileged command it leaves \<open>get_wifi_password\<close>.
\<close>

theorem lookups_pass_cancellation_counterexample:
  "fst (get_current_ssid cancelled_env) = Inl CancelledError
   \<and> fst (get_wifi_password
          (sample_env ''yes:Home'' two_connections (WaitRaises CancelledError) (Inr None) None)
          ''Home'') = Inl CancelledError"
  by code_simp

text \<open>
  C8, amended. For every command output and for every exception of the command
  execution that is an \<open>Exception\<close>, \<open>get_current_ssid\<close> and \<open>get_wifi_password\<close>
  return a value and raise nothing: the result is \<open>None\<close> when a command cannot be
  started, when waiting for it raises, when it exits with a code other than 0, when no
  line starts with \<open>yes\<close>, and when the first such line has no second field (the
  \<open>IndexError\<close> is caught); otherwise it is the second field of that line, respectively
  the stripped output of the privileged command. Only what is not an \<open>Exception\<close>
  (the cancellation of the task, the interrupt from the keyboard) leaves them, raised
  at the start of a command or at the wait for it.
\<close>

theorem lookups_catch_exceptions:
  "fst (get_current_ssid env) =
     (case shell env wifi_list_command of
        SpawnRaises e \<Rightarrow> if is_Exception e then Inr None else Inl e
      | WaitRaises e \<Rightarrow> if is_Exception e then Inr None else Inl e
      | Exited rc out err \<Rightarrow>
          Inr (if rc = 0 then
                 (case first_yes (splitlines (strip out)) of
                    None \<Rightarrow> None
                  | Some line \<Rightarrow> getitem (split_on (CHR '':'') line) 1)
               else None))
   \<and> fst (get_wifi_password env ssid) =
     (case shell env connection_list_command of
        SpawnRaises e \<Rightarrow> if is_Exception e then Inr None else Inl e
      | WaitRaises e \<Rightarrow> if is_Exception e then Inr None else Inl e
      | Exited rc out err \<Rightarrow>
          if rc = 0 then
            (case first_yes (splitlines (strip out)) of
               None \<Rightarrow> Inr None
             | Some line \<Rightarrow>
                 (case getitem (split_on (CHR '':'') line) 1 of
                    None \<Rightarrow> Inr None
                  | Some uuid \<Rightarrow>
                      (case shell env (pkexec_command uuid) of
                         SpawnRaises e \<Rightarrow> if is_Exception e then Inr None else Inl e
                       | WaitRaises e \<Rightarrow> if is_Exception e then Inr None else Inl e
                       | Exited rc' out' err' \<Rightarrow>
                           Inr (if rc' = 0 then Some (strip (strip out')) else None))))
          else Inr None)"
  by (simp add: get_current_ssid_result get_wifi_password_result ssid_result_def
      fetch_result_def fetch_signal_def proc_signal_def detected_def fetched_def
      active_uuid_def proc_output_def selected_def second_field_def
      split: proc.splits option.splits)

section \<open>The password does not depend on the SSID passed in\<close>

text \<open>
  C10. For two SSID arguments and the same environment, \<open>get_wifi_password\<close> returns
  the same result and starts the same commands: the argument only appears in the log
  records.
\<close>

theorem get_wifi_password_ignores_ssid:
  "fst (get_wifi_password env s1) = fst (get_wifi_password env s2)
   \<and> actions (snd (get_wifi_password env s1)) = actions (snd (get_wifi_password env s2))"
  by (simp add: get_wifi_password_result get_wifi_password_actions)

section \<open>Finding the active connection\<close>

lemma get_wifi_password_trace_none:
  assumes "shell env connection_list_command = Exited 0 out err"
    and "first_yes (splitlines (strip out)) = None"
  shows "get_wifi_password env ssid =
     (Inr None, [Log DEBUG (''Running command: '' @ connection_list_command),
                 Spawn connection_list_command, Completed connection_list_command 0])"
  using assms
  by (simp add: get_wifi_password_def run_command_cases uuid_loop_find
        try_except_def seq_def ret_def)

lemma get_wifi_password_trace_some:
  assumes "shell env connection_list_command = Exited 0 out err"
    and "first_yes (splitlines (strip out)) = Some line"
    and "getitem (split_on (CHR '':'') line) 1 = Some uuid"
  shows "\<exists>logs. snd (get_wifi_password env ssid) =
           [Log DEBUG (''Running command: '' @ connection_list_command),
            Spawn connection_list_command, Completed connection_list_command 0]
           @ snd (run_command env (pkexec_command uuid) True) @ logs
         \<and> actions logs = []"
    and "fst (get_wifi_password env ssid) =
           (case fst (run_command env (pkexec_command uuid) True) of
              Inl e \<Rightarrow> if is_Exception e then Inr None else Inl e
            | Inr password \<Rightarrow> Inr (Some (strip password)))"
proof -
  have first: "run_command env connection_list_command True =
      (Inr (strip out), [Log DEBUG (''Running command: '' @ connection_list_command),
            Spawn connection_list_command, Completed connection_list_command 0])"
    using assms(1) by (simp add: run_command_cases)
  have loop: "uuid_loop (splitlines (strip out)) = (Inr (Some uuid), [])"
    using assms(2,3) by (simp add: uuid_loop_find second_field_def)
  obtain r t where second: "run_command env (pkexec_command uuid) True = (r, t)"
    by (cases "run_command env (pkexec_command uuid) True")
  show "\<exists>logs. snd (get_wifi_password env ssid) =
           [Log DEBUG (''Running command: '' @ connection_list_command),
            Spawn connection_list_command, Completed connection_list_command 0]
           @ snd (run_command env (pkexec_command uuid) True) @ logs
         \<and> actions logs = []"
    by (cases r)
       (simp_all add: get_wifi_password_def first loop second try_except_def seq_def ret_def
          raise_def logger_def emit_def actions_simps)
  show "fst (get_wifi_password env ssid) =
           (case fst (run_command env (pkexec_command uuid) True) of
              Inl e \<Rightarrow> if is_Exception e then Inr None else Inl e
            | Inr password \<Rightarrow> Inr (Some (strip password)))"
    by (cases r)
       (simp_all add: get_wifi_password_def first loop second try_except_def seq_def ret_def
          raise_def logger_def emit_def)
qed

lemma active_field_prefix:
  "\<exists>rest. line = active_field line @ rest"
  unfolding active_field_def
  by (metis takeWhile_dropWhile_id)

lemma startswith_yes_active:
  assumes "active_field line = ''yes'' \<or> active_field line = ''no''"
  shows "startswith line ''yes'' = (active_field line = ''yes'')"
proof -
  obtain rest where r: "line = active_field line @ rest"
    using active_field_prefix by blast
  from assms show ?thesis
  proof
    assume a: "active_field line = ''yes''"
    with r have "line = ''yes'' @ rest" by simp
    then have "startswith line ''yes''" by (simp add: startswith_def)
    with a show ?thesis by simp
  next
    assume a: "active_field line = ''no''"
    with r have "line = ''no'' @ rest" by simp
    then have "\<not> startswith line ''yes''" by (simp add: startswith_def)
    with a show ?thesis by simp
  qed
qed

lemma first_yes_active_field:
  assumes "\<forall>line \<in> set ls. active_field line = ''yes'' \<or> active_field line = ''no''"
  shows "first_yes ls = find (\<lambda>line. active_field line = ''yes'') ls"
  using assms
  by (induction ls) (simp_all add: first_yes_def startswith_yes_active)

text \<open>
  C5, as stated, fails: the loop tests whether a line starts with \<open>yes\<close>, not
  whether its first field is \<open>yes\<close>. In the listing \<open>yesterday:abc\<close> no line has the
  active field \<open>yes\<close>, and yet \<open>get_wifi_password\<close> runs the privileged command for
  \<open>abc\<close> and returns its output.
\<close>

theorem get_wifi_password_prefix_counterexample:
  "find (\<lambda>line. active_field line = ''yes'') (splitlines (strip ''yesterday:abc'')) = None
   \<and> fst (get_wifi_password
          (sample_env ''yes:Home'' ''yesterday:abc'' (Exited 0 ''psk'' []) (Inr None) None)
          ''Home'') = Inr (Some ''psk'')
   \<and> spawned (snd (get_wifi_password
          (sample_env ''yes:Home'' ''yesterday:abc'' (Exited 0 ''psk'' []) (Inr None) None)
          ''Home'')) = [connection_list_command, pkexec_command ''abc'']"
  by code_simp

text \<open>
  C5, amended. Let the connection listing exit with 0. If none of its lines starts
  with \<open>yes\<close>, \<open>get_wifi_password\<close> returns \<open>None\<close> and does nothing beyond that
  listing: no privileged command is started. If a line starts with \<open>yes\<close> and the
  first such line has a second colon-delimited field, then that field is the UUID, the
  next thing the function does is \<open>run_command\<close> on the privileged command for that
  UUID, only log records follow, and the result is the stripped output of that command
  (\<open>None\<close> when it raises an \<open>Exception\<close>). For a listing whose lines all have the active field \<open>yes\<close>
  or \<open>no\<close>, as the network manager prints them, the first line that starts with \<open>yes\<close>
  is the first line whose active field is \<open>yes\<close>.
\<close>

theorem get_wifi_password_first_yes_line:
  assumes "shell env connection_list_command = Exited 0 out err"
  shows "(first_yes (splitlines (strip out)) = None \<longrightarrow>
            get_wifi_password env ssid =
              (Inr None, [Log DEBUG (''Running command: '' @ connection_list_command),
                          Spawn connection_list_command,
                          Completed connection_list_command 0]))
       \<and> (\<forall>line uuid.
            first_yes (splitlines (strip out)) = Some line
            \<and> getitem (split_on (CHR '':'') line) 1 = Some uuid \<longrightarrow>
            (\<exists>logs. snd (get_wifi_password env ssid) =
               [Log DEBUG (''Running command: '' @ connection_list_command),
                Spawn connection_list_command, Completed connection_list_command 0]
               @ snd (run_command env (pkexec_command uuid) True) @ logs
             \<and> actions logs = [])
            \<and> fst (get_wifi_password env ssid) =
                (case fst (run_command env (pkexec_command uuid) True) of
                   Inl e \<Rightarrow> if is_Exception e then Inr None else Inl e
                 | Inr password \<Rightarrow> Inr (Some (strip password))))
       \<and> ((\<forall>line \<in> set (splitlines (strip out)).
              active_field line = ''yes'' \<or> active_field line = ''no'') \<longrightarrow>
            first_yes (splitlines (strip out)) =
              find (\<lambda>line. active_field line = ''yes'') (splitlines (strip out)))"
  using get_wifi_password_trace_none [OF assms]
    get_wifi_password_trace_some [OF assms]
    first_yes_active_field [of "splitlines (strip out)"]
  by blast

theorem get_wifi_password_first_yes_line_witness:
  "first_yes (splitlines (strip two_connections)) = Some ''yes:u1''
   \<and> getitem (split_on (CHR '':'') ''yes:u1'') 1 = Some ''u1''
   \<and> fst (get_wifi_password
          (sample_env ''yes:Home'' two_connections (Exited 0 ''secret'' []) (Inr None) None)
          ''Home'') = Inr (Some ''secret'')
   \<and> first_yes (splitlines (strip ''no:u0'')) = None
   \<and> get_wifi_password
        (sample_env ''yes:Home'' ''no:u0'' (Exited 0 ''secret'' []) (Inr None) None) ''Home''
      = (Inr None, [Log DEBUG (''Running command: '' @ connection_list_command),
                    Spawn connection_list_command, Completed connection_list_command 0])"
proof -
  let ?E = "sample_env ''yes:Home'' two_connections (Exited 0 ''secret'' []) (Inr None) None"
  let ?F = "sample_env ''yes:Home'' ''no:u0'' (Exited 0 ''secret'' []) (Inr None) None"
  have s: "shell ?E connection_list_command = Exited 0 two_connections []"
    by (simp add: sample_env_def commands_distinct [symmetric])
  have s0: "shell ?F connection_list_command = Exited 0 ''no:u0'' []"
    by (simp add: sample_env_def commands_distinct [symmetric])
  have a: "first_yes (splitlines (strip two_connections)) = Some ''yes:u1''"
    by code_simp
  have b: "getitem (split_on (CHR '':'') ''yes:u1'') 1 = Some ''u1''"
    by code_simp
  have c: "first_yes (splitlines (strip ''no:u0'')) = None"
    by code_simp
  have r: "fst (run_command ?E (pkexec_command ''u1'') True) = Inr ''secret''"
    by code_simp
  from get_wifi_password_first_yes_line [OF s, of "''Home''"] a b
  have "fst (get_wifi_password ?E ''Home'') =
      (case fst (run_command ?E (pkexec_command ''u1'') True) of
         Inl e \<Rightarrow> if is_Exception e then Inr None else Inl e
       | Inr password \<Rightarrow> Inr (Some (strip password)))"
    by blast
  with r have d: "fst (get_wifi_password ?E ''Home'') = Inr (Some (strip ''secret''))"
    by simp
  have e: "strip ''secret'' = ''secret''"
    by code_simp
  from get_wifi_password_first_yes_line [OF s0, of "''Home''"] c
  have f: "get_wifi_password ?F ''Home'' =
      (Inr None, [Log DEBUG (''Running command: '' @ connection_list_command),
                  Spawn connection_list_command, Completed connection_list_command 0])"
    by blast
  from a b c d e f show ?thesis by simp
qed

section \<open>The run of main\<close>

lemma spawned_actions: "spawned (actions tr) = spawned tr"
  by (induction tr rule: spawned.induct) (simp_all add: actions_simps)

lemma dialogs_actions: "dialogs (actions tr) = dialogs tr"
  by (induction tr rule: dialogs.induct) (simp_all add: actions_simps)

lemma windows_actions: "windows (actions tr) = windows tr"
  by (induction tr rule: windows.induct) (simp_all add: actions_simps)

lemma keyring_sets_actions: "keyring_sets (actions tr) = keyring_sets tr"
  by (induction tr rule: keyring_sets.induct) (simp_all add: actions_simps)

lemma sequential_actions: "sequential cur (actions tr) = sequential cur tr"
  by (induction cur tr rule: sequential.induct) (simp_all add: actions_simps)

lemma spawned_append: "spawned (a @ b) = spawned a @ spawned b"
  by (induction a rule: spawned.induct) simp_all

lemma dialogs_append: "dialogs (a @ b) = dialogs a @ dialogs b"
  by (induction a rule: dialogs.induct) simp_all

lemma windows_append: "windows (a @ b) = windows a @ windows b"
  by (induction a rule: windows.induct) simp_all

lemma keyring_sets_append: "keyring_sets (a @ b) = keyring_sets a @ keyring_sets b"
  by (induction a rule: keyring_sets.induct) simp_all

lemma proc_actions_quiet:
  "dialogs (proc_actions env c) = []"
  "windows (proc_actions env c) = []"
  "keyring_sets (proc_actions env c) = []"
  by (simp_all add: proc_actions_def split: proc.splits)

lemma fetch_actions_quiet:
  "dialogs (fetch_actions env) = []"
  "windows (fetch_actions env) = []"
  "keyring_sets (fetch_actions env) = []"
  by (simp_all add: fetch_actions_def dialogs_append windows_append keyring_sets_append
      proc_actions_quiet split: option.splits)

lemma main_result:
  "fst (main env) =
     (case ssid_result env of
        Inl e \<Rightarrow> if handled e then Inr () else Inl e
      | Inr None \<Rightarrow> Inr ()
      | Inr (Some ssid) \<Rightarrow>
          if ssid = [] then Inr ()
          else
            (case kr_get env KEYRING_SERVICE_NAME ssid of
               Inl e \<Rightarrow> if handled e then Inr () else Inl e
             | Inr cached \<Rightarrow>
                 if truthy cached then Inr ()
                 else
                   (case fetch_result env of
                      Inl e \<Rightarrow> if handled e then Inr () else Inl e
                    | Inr None \<Rightarrow> Inr ()
                    | Inr (Some p) \<Rightarrow>
                        if p = [] then Inr ()
                        else
                          (case kr_set env KEYRING_SERVICE_NAME ssid p of
                             None \<Rightarrow> Inr ()
                           | Some e \<Rightarrow> if handled e then Inr () else Inl e))))"
proof -
  obtain t1 where g: "get_current_ssid env = (ssid_result env, t1)"
    by (rule get_current_ssid_eq)
  have fetch: "\<And>ssid. \<exists>t2. get_wifi_password env ssid = (fetch_result env, t2)"
    by (metis get_wifi_password_eq)
  show ?thesis
  proof (cases "ssid_result env")
    case (Inl e)
    then show ?thesis
      by (simp add: main_def g seq_def try_except_def raise_def critical_error_def
          handled_def logger_def emit_def showerror_def split: exn.splits)
  next
    case (Inr found)
    show ?thesis
    proof (cases found)
      case None
      with Inr show ?thesis
        by (simp add: main_def g seq_def try_except_def no_ssid_def
            logger_def emit_def showerror_def)
    next
      case (Some ssid)
      obtain t2 where w: "get_wifi_password env ssid = (fetch_result env, t2)"
        using fetch by blast
      from Inr Some show ?thesis
        by (simp add: main_def g w handled_def fetch_and_cache_def keyring_get_password_def
            keyring_set_password_def show_qr_code_def password_not_found_def
            critical_error_def
            no_ssid_def truthy_def raise_def ret_def
            seq_def try_except_def logger_def emit_def showerror_def
            split: sum.splits option.splits exn.splits)
    qed
  qed
qed

lemma main_trace_cached:
  assumes "fst (get_current_ssid env) = Inr (Some ssid)" and "ssid \<noteq> []"
    and "kr_get env KEYRING_SERVICE_NAME ssid = Inr (Some p)" and "p \<noteq> []"
  shows "main env =
     (Inr (), snd (get_current_ssid env) @
              [KeyringGet KEYRING_SERVICE_NAME ssid, qr_window ssid p])"
proof -
  obtain t1 where g: "get_current_ssid env = (Inr (Some ssid), t1)"
    using assms(1) by (cases "get_current_ssid env") simp
  from assms(2-4) show ?thesis
    by (simp add: main_def g keyring_get_password_def show_qr_code_def qr_window_def
        truthy_def ret_def seq_def try_except_def emit_def)
qed

lemma main_trace_fetch:
  assumes "fst (get_current_ssid env) = Inr (Some ssid)" and "ssid \<noteq> []"
    and "kr_get env KEYRING_SERVICE_NAME ssid = Inr cached" and "\<not> truthy cached"
  shows "\<exists>rest. snd (main env) =
     snd (get_current_ssid env) @ KeyringGet KEYRING_SERVICE_NAME ssid #
     snd (get_wifi_password env ssid) @ rest"
proof -
  obtain t1 where g: "get_current_ssid env = (Inr (Some ssid), t1)"
    using assms(1) by (cases "get_current_ssid env") simp
  obtain t2 where w: "get_wifi_password env ssid = (fetch_result env, t2)"
    by (rule get_wifi_password_eq)
  from assms(2-4) show ?thesis
    by (simp add: main_def g w fetch_and_cache_def keyring_get_password_def
        keyring_set_password_def show_qr_code_def password_not_found_def critical_error_def
        raise_def ret_def seq_def try_except_def logger_def emit_def showerror_def
        split: sum.splits option.splits exn.splits)
qed

lemma get_current_ssid_debug_log:
  "Log DEBUG msg \<in> set (snd (get_current_ssid env)) \<Longrightarrow>
     msg = ''Running command: '' @ wifi_list_command"
  by (simp add: get_current_ssid_def run_command_cases ssid_loop_find
        try_except_def seq_def ret_def raise_def logger_def emit_def
        split: proc.splits exn.splits option.splits if_splits)

section \<open>Fetching the password when it is not cached\<close>

text \<open>
  C3, as stated, fails: with the SSID \<open>Home\<close> detected and no password in the
  credential store, a connection listing without a line that starts with \<open>yes\<close> makes
  \<open>get_wifi_password\<close> return before the privileged command: the run starts the two
  listings and nothing else.
\<close>

theorem main_fetch_without_pkexec_counterexample:
  "fst (get_current_ssid
          (sample_env ''yes:Home'' ''no:u1'' (Exited 0 ''secret'' []) (Inr None) None))
     = Inr (Some ''Home'')
   \<and> kr_get (sample_env ''yes:Home'' ''no:u1'' (Exited 0 ''secret'' []) (Inr None) None)
       KEYRING_SERVICE_NAME ''Home'' = Inr None
   \<and> spawned (snd (main
          (sample_env ''yes:Home'' ''no:u1'' (Exited 0 ''secret'' []) (Inr None) None)))
     = [wifi_list_command, connection_list_command]"
  by code_simp

text \<open>
  C3, amended. In a run of \<open>main\<close> that detects a non-empty SSID and whose lookup in
  the credential store returns: \<open>get_wifi_password\<close> is called (its first log record
  is in the trace) if and only if the lookup returned no password, that is \<open>None\<close> or
  the empty string; with a cached password the run starts no command but the Wi-Fi
  listing, so the privileged command runs only when nothing is cached; and when
  \<open>get_wifi_password\<close> returns a non-empty password, \<open>keyring.set_password\<close> is called
  with the service name, the SSID and that password right after it, and the QR window
  follows only if that call returns (if it raises, no window is shown).
\<close>

theorem main_fetches_iff_not_cached:
  assumes "fst (get_current_ssid env) = Inr (Some ssid)" and "ssid \<noteq> []"
    and "kr_get env KEYRING_SERVICE_NAME ssid = Inr cached"
  shows "(Log DEBUG (''Running command: '' @ connection_list_command) \<in> set (snd (main env)))
           = (\<not> truthy cached)
       \<and> (truthy cached \<longrightarrow> spawned (snd (main env)) = [wifi_list_command])
       \<and> (\<forall>p. \<not> truthy cached \<and> fst (get_wifi_password env ssid) = Inr (Some p) \<and> p \<noteq> [] \<longrightarrow>
            actions (snd (main env)) =
              actions (snd (get_current_ssid env)) @
              KeyringGet KEYRING_SERVICE_NAME ssid #
              actions (snd (get_wifi_password env ssid)) @
              KeyringSet KEYRING_SERVICE_NAME ssid p #
              (case kr_set env KEYRING_SERVICE_NAME ssid p of
                 None \<Rightarrow> [QrWindow (wifi_config ssid p) (''Connect to: '' @ ssid)]
               | Some e \<Rightarrow> if handled e then [critical_dialog env e] else []))"
proof (intro conjI allI impI)
  have sr: "ssid_result env = Inr (Some ssid)"
    using assms(1) by (simp add: get_current_ssid_result)
  then have d: "detected env = Some ssid"
    by (simp add: ssid_result_Inr)
  show "(Log DEBUG (''Running command: '' @ connection_list_command) \<in> set (snd (main env)))
           = (\<not> truthy cached)"
  proof (cases "truthy cached")
    case True
    then obtain p where p: "cached = Some p" "p \<noteq> []"
      by (auto simp: truthy_def split: option.splits)
    have "Log DEBUG (''Running command: '' @ connection_list_command)
            \<notin> set (snd (get_current_ssid env))"
      using get_current_ssid_debug_log [of "''Running command: '' @ connection_list_command" env]
        commands_distinct(1)
      by auto
    with True show ?thesis
      using main_trace_cached [OF assms(1,2) assms(3) [unfolded p(1)] p(2)]
      by (simp add: qr_window_def)
  next
    case False
    obtain rest where r: "snd (main env) =
       snd (get_current_ssid env) @ KeyringGet KEYRING_SERVICE_NAME ssid #
       snd (get_wifi_password env ssid) @ rest"
      using main_trace_fetch [OF assms False] by blast
    obtain rest' where "snd (get_wifi_password env ssid) =
       Log DEBUG (''Running command: '' @ connection_list_command) # rest'"
      using get_wifi_password_first by blast
    with r False show ?thesis by simp
  qed
  show "spawned (snd (main env)) = [wifi_list_command]" if "truthy cached"
  proof -
    from that obtain p where p: "cached = Some p" "p \<noteq> []"
      by (auto simp: truthy_def split: option.splits)
    have "spawned (actions (snd (main env))) = [wifi_list_command]"
      using sr d assms(2,3) p
      by (simp add: main_actions_eq main_actions_def ssid_tail_def after_lookup_def after_fetch_def fetch_tail_def qr_window_def
          spawned_append detected_def proc_output_def proc_actions_def
          split: proc.splits option.splits if_splits)
    then show ?thesis by (simp add: spawned_actions)
  qed
  show "actions (snd (main env)) =
          actions (snd (get_current_ssid env)) @
          KeyringGet KEYRING_SERVICE_NAME ssid #
          actions (snd (get_wifi_password env ssid)) @
          KeyringSet KEYRING_SERVICE_NAME ssid p #
          (case kr_set env KEYRING_SERVICE_NAME ssid p of
             None \<Rightarrow> [QrWindow (wifi_config ssid p) (''Connect to: '' @ ssid)]
           | Some e \<Rightarrow> if handled e then [critical_dialog env e] else [])"
    if "\<not> truthy cached \<and> fst (get_wifi_password env ssid) = Inr (Some p) \<and> p \<noteq> []" for p
  proof -
    from that have f: "fetch_result env = Inr (Some p)" and np: "p \<noteq> []"
      and nc: "\<not> truthy cached"
      by (simp_all add: get_wifi_password_result)
    from sr assms(2,3) f np nc show ?thesis
      by (simp add: main_actions_eq main_actions_def ssid_tail_def after_lookup_def after_fetch_def fetch_tail_def store_and_show_def
          after_raise_def qr_window_def get_current_ssid_actions get_wifi_password_actions
          truthy_def split: option.splits)
  qed
qed

theorem main_fetches_iff_not_cached_witness:
  "fst (get_current_ssid
          (sample_env ''yes:Home'' two_connections (Exited 0 ''secret'' []) (Inr None) None))
     = Inr (Some ''Home'')
   \<and> Log DEBUG (''Running command: '' @ connection_list_command)
       \<in> set (snd (main
          (sample_env ''yes:Home'' two_connections (Exited 0 ''secret'' []) (Inr None) None)))
   \<and> fst (get_wifi_password
          (sample_env ''yes:Home'' two_connections (Exited 0 ''secret'' []) (Inr None) None)
          ''Home'') = Inr (Some ''secret'')
   \<and> actions (snd (main
          (sample_env ''yes:Home'' two_connections (Exited 0 ''secret'' []) (Inr None) None)))
     = [Spawn wifi_list_command, Completed wifi_list_command 0,
        KeyringGet KEYRING_SERVICE_NAME ''Home'',
        Spawn connection_list_command, Completed connection_list_command 0,
        Spawn (pkexec_command ''u1''), Completed (pkexec_command ''u1'') 0,
        KeyringSet KEYRING_SERVICE_NAME ''Home'' ''secret'',
        QrWindow (wifi_config ''Home'' ''secret'') ''Connect to: Home'']
   \<and> spawned (snd (main
          (sample_env ''yes:Home'' two_connections (Exited 0 ''secret'' [])
             (Inr (Some ''cached'')) None)))
     = [wifi_list_command]"
proof -
  let ?E = "sample_env ''yes:Home'' two_connections (Exited 0 ''secret'' []) (Inr None) None"
  let ?F = "sample_env ''yes:Home'' two_connections (Exited 0 ''secret'' [])
              (Inr (Some ''cached'')) None"
  have g: "fst (get_current_ssid ?E) = Inr (Some ''Home'')"
    by code_simp
  have g': "fst (get_current_ssid ?F) = Inr (Some ''Home'')"
    by code_simp
  have n: "''Home'' \<noteq> []"
    by simp
  have k: "kr_get ?E KEYRING_SERVICE_NAME ''Home'' = Inr None"
    by (simp add: sample_env_def)
  have k': "kr_get ?F KEYRING_SERVICE_NAME ''Home'' = Inr (Some ''cached'')"
    by (simp add: sample_env_def)
  have w: "fst (get_wifi_password ?E ''Home'') = Inr (Some ''secret'')"
    by code_simp
  have a1: "actions (snd (get_current_ssid ?E)) =
      [Spawn wifi_list_command, Completed wifi_list_command 0]"
    by code_simp
  have a2: "actions (snd (get_wifi_password ?E ''Home'')) =
      [Spawn connection_list_command, Completed connection_list_command 0,
       Spawn (pkexec_command ''u1''), Completed (pkexec_command ''u1'') 0]"
    by code_simp
  have s: "kr_set ?E KEYRING_SERVICE_NAME ''Home'' ''secret'' = None"
    by (simp add: sample_env_def)
  note t = main_fetches_iff_not_cached [OF g n k]
  note t' = main_fetches_iff_not_cached [OF g' n k']
  from t have m: "Log DEBUG (''Running command: '' @ connection_list_command)
      \<in> set (snd (main ?E))"
    by (simp add: truthy_def)
  from t w have "actions (snd (main ?E)) =
      actions (snd (get_current_ssid ?E)) @
      KeyringGet KEYRING_SERVICE_NAME ''Home'' #
      actions (snd (get_wifi_password ?E ''Home'')) @
      KeyringSet KEYRING_SERVICE_NAME ''Home'' ''secret'' #
      (case kr_set ?E KEYRING_SERVICE_NAME ''Home'' ''secret'' of
         None \<Rightarrow> [QrWindow (wifi_config ''Home'' ''secret'') (''Connect to: '' @ ''Home'')]
       | Some e \<Rightarrow> if handled e then [critical_dialog ?E e] else [])"
    by (simp add: truthy_def)
  then have a: "actions (snd (main ?E)) =
      [Spawn wifi_list_command, Completed wifi_list_command 0,
       KeyringGet KEYRING_SERVICE_NAME ''Home'',
       Spawn connection_list_command, Completed connection_list_command 0,
       Spawn (pkexec_command ''u1''), Completed (pkexec_command ''u1'') 0,
       KeyringSet KEYRING_SERVICE_NAME ''Home'' ''secret'',
       QrWindow (wifi_config ''Home'' ''secret'') ''Connect to: Home'']"
    by (simp add: a1 a2 s)
  from t' have c: "spawned (snd (main ?F)) = [wifi_list_command]"
    by (simp add: truthy_def)
  from g m w a c show ?thesis
    by simp
qed

section \<open>The empty password\<close>

lemma windows_set: "((payload, label) \<in> set (windows tr)) = (QrWindow payload label \<in> set tr)"
  by (induction tr rule: windows.induct) auto

lemma windows_after_raise: "windows (after_raise env e) = []"
  by (simp add: after_raise_def critical_dialog_def)

lemma windows_store_and_show:
  "windows (store_and_show env ssid p) = []
   \<or> windows (store_and_show env ssid p) = [(wifi_config ssid p, ''Connect to: '' @ ssid)]"
  by (simp add: store_and_show_def qr_window_def windows_after_raise split: option.splits)

lemma windows_after_fetch:
  "windows (after_fetch env ssid) = []
   \<or> (\<exists>p. p \<noteq> []
          \<and> windows (after_fetch env ssid) = [(wifi_config ssid p, ''Connect to: '' @ ssid)])"
proof (cases "fetch_result env")
  case (Inl e)
  then show ?thesis
    by (simp add: after_fetch_def fetch_tail_def windows_append fetch_actions_quiet windows_after_raise)
next
  case (Inr got)
  show ?thesis
  proof (cases "truthy got")
    case False
    with Inr show ?thesis
      by (simp add: after_fetch_def fetch_tail_def windows_append fetch_actions_quiet not_found_dialog_def
          truthy_def split: option.splits)
  next
    case True
    then obtain p where p: "got = Some p" "p \<noteq> []"
      by (auto simp: truthy_def split: option.splits)
    with Inr have "windows (after_fetch env ssid) = windows (store_and_show env ssid p)"
      by (simp add: after_fetch_def fetch_tail_def windows_append fetch_actions_quiet)
    with windows_store_and_show [of env ssid p] p(2) show ?thesis
      by auto
  qed
qed

lemma windows_after_lookup:
  "windows (after_lookup env ssid) = []
   \<or> (\<exists>p. p \<noteq> []
          \<and> windows (after_lookup env ssid) = [(wifi_config ssid p, ''Connect to: '' @ ssid)])"
proof (cases "kr_get env KEYRING_SERVICE_NAME ssid")
  case (Inl e)
  then show ?thesis
    by (simp add: after_lookup_def windows_after_raise)
next
  case (Inr cached)
  show ?thesis
  proof (cases "truthy cached")
    case True
    then obtain c where c: "cached = Some c" "c \<noteq> []"
      by (auto simp: truthy_def split: option.splits)
    with Inr have "windows (after_lookup env ssid) = [(wifi_config ssid c, ''Connect to: '' @ ssid)]"
      by (simp add: after_lookup_def qr_window_def)
    with c(2) show ?thesis
      by blast
  next
    case False
    with Inr have "after_lookup env ssid = after_fetch env ssid"
      by (simp add: after_lookup_def truthy_def split: option.splits)
    with windows_after_fetch [of env ssid] show ?thesis
      by simp
  qed
qed

lemma windows_main_shape:
  "windows (snd (main env)) = []
   \<or> (\<exists>ssid p. ssid \<noteq> [] \<and> p \<noteq> []
          \<and> windows (snd (main env)) = [(wifi_config ssid p, ''Connect to: '' @ ssid)])"
proof -
  have eq: "windows (snd (main env)) = windows (main_actions env)"
    by (simp add: main_actions_eq [symmetric] windows_actions)
  show ?thesis
  proof (cases "\<exists>ssid. ssid_result env = Inr (Some ssid) \<and> ssid \<noteq> []")
    case False
    then have "windows (main_actions env) = []"
      by (auto simp: main_actions_def ssid_tail_def windows_append proc_actions_quiet windows_after_raise
          no_ssid_dialog_def split: sum.splits option.splits)
    with eq show ?thesis
      by simp
  next
    case True
    then obtain ssid where sr: "ssid_result env = Inr (Some ssid)" and ne: "ssid \<noteq> []"
      by blast
    then have "windows (main_actions env) = windows (after_lookup env ssid)"
      by (simp add: main_actions_def ssid_tail_def windows_append proc_actions_quiet)
    with eq windows_after_lookup [of env ssid] ne show ?thesis
      by auto
  qed
qed

text \<open>
  C9. An empty password counts as no password. When the credential store returns the
  empty string for the detected SSID, \<open>main\<close> still runs \<open>get_wifi_password\<close> right
  after the lookup. When nothing is cached and \<open>get_wifi_password\<close> returns the empty
  string (the stripped output of the privileged command), \<open>main\<close> returns without a
  call of \<open>keyring.set_password\<close> and without a QR window, and shows the one dialog
  \<open>Password not found for SSID '...'.\<close>. Every QR window a run shows encodes a
  non-empty SSID and a non-empty password.
\<close>

theorem empty_password_is_absent:
  "(\<forall>ssid. fst (get_current_ssid env) = Inr (Some ssid) \<and> ssid \<noteq> []
          \<and> kr_get env KEYRING_SERVICE_NAME ssid = Inr (Some []) \<longrightarrow>
      (\<exists>rest. snd (main env) =
         snd (get_current_ssid env) @ KeyringGet KEYRING_SERVICE_NAME ssid #
         snd (get_wifi_password env ssid) @ rest))
   \<and> (\<forall>ssid cached. fst (get_current_ssid env) = Inr (Some ssid) \<and> ssid \<noteq> []
          \<and> kr_get env KEYRING_SERVICE_NAME ssid = Inr cached \<and> \<not> truthy cached
          \<and> fst (get_wifi_password env ssid) = Inr (Some []) \<longrightarrow>
        fst (main env) = Inr ()
      \<and> keyring_sets (snd (main env)) = []
      \<and> windows (snd (main env)) = []
      \<and> dialogs (snd (main env)) =
          [(''Error'', ''Password not found for SSID '' @ quoted ssid @ ''.'')])
   \<and> (\<forall>payload label. QrWindow payload label \<in> set (snd (main env)) \<longrightarrow>
        (\<exists>ssid p. ssid \<noteq> [] \<and> p \<noteq> [] \<and> payload = wifi_config ssid p
                 \<and> label = ''Connect to: '' @ ssid))"
proof (intro conjI allI impI)
  fix ssid
  assume "fst (get_current_ssid env) = Inr (Some ssid) \<and> ssid \<noteq> []
          \<and> kr_get env KEYRING_SERVICE_NAME ssid = Inr (Some [])"
  then show "\<exists>rest. snd (main env) =
         snd (get_current_ssid env) @ KeyringGet KEYRING_SERVICE_NAME ssid #
         snd (get_wifi_password env ssid) @ rest"
    using main_trace_fetch [of env ssid "Some []"] by (simp add: truthy_def)
next
  fix ssid cached
  assume a: "fst (get_current_ssid env) = Inr (Some ssid) \<and> ssid \<noteq> []
          \<and> kr_get env KEYRING_SERVICE_NAME ssid = Inr cached \<and> \<not> truthy cached
          \<and> fst (get_wifi_password env ssid) = Inr (Some [])"
  then have d: "ssid_result env = Inr (Some ssid)" and f: "fetch_result env = Inr (Some [])"
    by (simp_all add: get_current_ssid_result get_wifi_password_result)
  from a d f show "fst (main env) = Inr ()"
    by (simp add: main_result)
  have acts: "actions (snd (main env)) =
      proc_actions env wifi_list_command @ KeyringGet KEYRING_SERVICE_NAME ssid #
      fetch_actions env @ [not_found_dialog ssid]"
    using a d f
    by (simp add: main_actions_eq main_actions_def ssid_tail_def after_lookup_def after_fetch_def fetch_tail_def truthy_def
        split: option.splits)
  have "keyring_sets (actions (snd (main env))) = []"
    by (simp add: acts keyring_sets_append proc_actions_quiet fetch_actions_quiet
        not_found_dialog_def)
  then show "keyring_sets (snd (main env)) = []"
    by (simp add: keyring_sets_actions)
  have "windows (actions (snd (main env))) = []"
    by (simp add: acts windows_append proc_actions_quiet fetch_actions_quiet
        not_found_dialog_def)
  then show "windows (snd (main env)) = []"
    by (simp add: windows_actions)
  have "dialogs (actions (snd (main env))) =
      [(''Error'', ''Password not found for SSID '' @ quoted ssid @ ''.'')]"
    by (simp add: acts dialogs_append proc_actions_quiet fetch_actions_quiet
        not_found_dialog_def)
  then show "dialogs (snd (main env)) =
      [(''Error'', ''Password not found for SSID '' @ quoted ssid @ ''.'')]"
    by (simp add: dialogs_actions)
next
  fix payload label
  assume "QrWindow payload label \<in> set (snd (main env))"
  then have m: "(payload, label) \<in> set (windows (snd (main env)))"
    by (simp add: windows_set)
  then have "windows (snd (main env)) \<noteq> []"
    by auto
  with windows_main_shape [of env] obtain ssid p where sp: "ssid \<noteq> []" "p \<noteq> []"
    and w: "windows (snd (main env)) = [(wifi_config ssid p, ''Connect to: '' @ ssid)]"
    by blast
  from m w have "payload = wifi_config ssid p" and "label = ''Connect to: '' @ ssid"
    by simp_all
  with sp show "\<exists>ssid p. ssid \<noteq> [] \<and> p \<noteq> [] \<and> payload = wifi_config ssid p
                 \<and> label = ''Connect to: '' @ ssid"
    by blast
qed


theorem empty_password_is_absent_witness:
  "kr_get (sample_env ''yes:Home'' two_connections (Exited 0 ''   '' []) (Inr (Some [])) None)
     KEYRING_SERVICE_NAME ''Home'' = Inr (Some [])
   \<and> fst (get_wifi_password
          (sample_env ''yes:Home'' two_connections (Exited 0 ''   '' []) (Inr (Some [])) None)
          ''Home'') = Inr (Some [])
   \<and> spawned (snd (main
          (sample_env ''yes:Home'' two_connections (Exited 0 ''   '' []) (Inr (Some [])) None)))
       = [wifi_list_command, connection_list_command, pkexec_command ''u1'']
   \<and> keyring_sets (snd (main
          (sample_env ''yes:Home'' two_connections (Exited 0 ''   '' []) (Inr (Some [])) None)))
       = []
   \<and> windows (snd (main
          (sample_env ''yes:Home'' two_connections (Exited 0 ''   '' []) (Inr (Some [])) None)))
       = []
   \<and> dialogs (snd (main
          (sample_env ''yes:Home'' two_connections (Exited 0 ''   '' []) (Inr (Some [])) None)))
       = [(''Error'', ''Password not found for SSID '' @ quoted ''Home'' @ ''.'')]
   \<and> QrWindow (wifi_config ''Home'' ''secret'') ''Connect to: Home''
       \<in> set (snd (main
          (sample_env ''yes:Home'' two_connections (Exited 0 ''secret'' []) (Inr None) None)))"
proof -
  let ?E = "sample_env ''yes:Home'' two_connections (Exited 0 ''   '' []) (Inr (Some [])) None"
  let ?F = "sample_env ''yes:Home'' two_connections (Exited 0 ''secret'' []) (Inr None) None"
  have g: "fst (get_current_ssid ?E) = Inr (Some ''Home'')"
    by code_simp
  have k: "kr_get ?E KEYRING_SERVICE_NAME ''Home'' = Inr (Some [])"
    by (simp add: sample_env_def)
  have w: "fst (get_wifi_password ?E ''Home'') = Inr (Some [])"
    by code_simp
  have sp: "spawned (snd (get_current_ssid ?E)) = [wifi_list_command]"
    by code_simp
  have sw: "spawned (snd (get_wifi_password ?E ''Home'')) =
      [connection_list_command, pkexec_command ''u1'']"
    by code_simp
  have q: "QrWindow (wifi_config ''Home'' ''secret'') ''Connect to: Home''
       \<in> set (snd (main ?F))"
    by code_simp
  note t = empty_password_is_absent [of ?E]
  from t g k obtain rest where r: "snd (main ?E) =
      snd (get_current_ssid ?E) @ KeyringGet KEYRING_SERVICE_NAME ''Home'' #
      snd (get_wifi_password ?E ''Home'') @ rest"
    by blast
  from t g k w have e: "fst (main ?E) = Inr () \<and> keyring_sets (snd (main ?E)) = []
      \<and> windows (snd (main ?E)) = []
      \<and> dialogs (snd (main ?E)) =
          [(''Error'', ''Password not found for SSID '' @ quoted ''Home'' @ ''.'')]"
    by (simp add: truthy_def)
  have "spawned rest = []"
  proof -
    have "spawned (actions (snd (main ?E))) =
        [wifi_list_command, connection_list_command, pkexec_command ''u1'']"
      by code_simp
    then show ?thesis
      using r sp sw by (simp add: spawned_actions spawned_append)
  qed
  with r sp sw have s: "spawned (snd (main ?E)) =
      [wifi_list_command, connection_list_command, pkexec_command ''u1'']"
    by (simp add: spawned_append)
  from empty_password_is_absent [of ?F] q
  have "\<exists>ssid p. ssid \<noteq> [] \<and> p \<noteq> []
      \<and> wifi_config ''Home'' ''secret'' = wifi_config ssid p
      \<and> ''Connect to: Home'' = ''Connect to: '' @ ssid"
    by blast
  with k w s e q show ?thesis
    by simp
qed

section \<open>One command at a time\<close>

lemma sequential_proc:
  "sequential None (proc_actions env c @ rest) =
     (case shell env c of
        SpawnRaises e \<Rightarrow> sequential None rest
      | WaitRaises e \<Rightarrow> sequential (Some c) rest
      | Exited rc out err \<Rightarrow> sequential None rest)"
  by (simp add: proc_actions_def split: proc.splits)

lemma sequential_tail:
  "sequential cur [no_ssid_dialog]"
  "sequential cur [not_found_dialog ssid]"
  "sequential cur (after_raise env e)"
  "sequential cur [qr_window ssid p]"
  "sequential cur (store_and_show env ssid p)"
  by (simp_all add: no_ssid_dialog_def not_found_dialog_def after_raise_def critical_dialog_def
      qr_window_def store_and_show_def split: option.splits)

lemma sequential_fetch_tail: "sequential cur (fetch_tail env ssid)"
  by (simp add: fetch_tail_def sequential_tail split: sum.splits option.splits)

lemma sequential_after_fetch: "sequential None (after_fetch env ssid)"
  by (simp add: after_fetch_def fetch_actions_def active_uuid_def proc_output_def
      sequential_proc sequential_fetch_tail
      split: proc.splits option.splits)

lemma sequential_after_lookup: "sequential None (after_lookup env ssid)"
  by (simp add: after_lookup_def sequential_after_fetch sequential_tail
      split: sum.splits option.splits)

lemma sequential_main_actions: "sequential None (main_actions env)"
  by (simp add: main_actions_def ssid_tail_def ssid_result_def proc_signal_def detected_def
      proc_output_def sequential_proc sequential_tail sequential_after_lookup
      split: proc.splits option.splits)

text \<open>
  C6. In every run of \<open>main\<close> at most one command is in flight at any time: a
  subprocess is started only when none is in flight, and the one that ends is the one
  in flight. \<open>run_command\<close> returns a value only after the subprocess it started has
  ended: its events, log records apart, are then the start and the end of that
  command.
\<close>

theorem commands_never_overlap:
  "sequential None (snd (main env))
   \<and> (\<forall>out. fst (run_command env c check) = Inr out \<longrightarrow>
        (\<exists>rc. actions (snd (run_command env c check)) = [Spawn c, Completed c rc]))"
proof
  have "sequential None (actions (snd (main env)))"
    by (simp add: main_actions_eq sequential_main_actions)
  then show "sequential None (snd (main env))"
    by (simp add: sequential_actions)
  show "\<forall>out. fst (run_command env c check) = Inr out \<longrightarrow>
        (\<exists>rc. actions (snd (run_command env c check)) = [Spawn c, Completed c rc])"
    by (simp add: run_command_cases actions_simps split: proc.splits)
qed

theorem commands_never_overlap_witness:
  "fst (run_command
          (sample_env ''yes:Home'' two_connections (Exited 0 ''secret'' []) (Inr None) None)
          wifi_list_command True) = Inr ''yes:Home''
   \<and> (\<exists>rc. actions (snd (run_command
          (sample_env ''yes:Home'' two_connections (Exited 0 ''secret'' []) (Inr None) None)
          wifi_list_command True)) = [Spawn wifi_list_command, Completed wifi_list_command rc])
   \<and> sequential None (snd (main
          (sample_env ''yes:Home'' two_connections (Exited 0 ''secret'' []) (Inr None) None)))"
proof -
  let ?E = "sample_env ''yes:Home'' two_connections (Exited 0 ''secret'' []) (Inr None) None"
  have r: "fst (run_command ?E wifi_list_command True) = Inr ''yes:Home''"
    by code_simp
  note t = commands_never_overlap [of ?E wifi_list_command True]
  from t r have "\<exists>rc. actions (snd (run_command ?E wifi_list_command True)) =
      [Spawn wifi_list_command, Completed wifi_list_command rc]"
    by blast
  with t r show ?thesis
    by blast
qed

section \<open>Failures\<close>

lemma exited_nonzero_actions: "exited_nonzero (actions tr) = exited_nonzero tr"
  by (induction tr rule: exited_nonzero.induct) (simp_all add: actions_simps)

lemma exited_nonzero_append:
  "exited_nonzero (a @ b) = (exited_nonzero a \<or> exited_nonzero b)"
  by (induction a rule: exited_nonzero.induct) simp_all

lemma stops_at_failure_actions: "stops_at_failure (actions tr) = stops_at_failure tr"
  by (induction tr rule: stops_at_failure.induct)
     (simp_all add: actions_simps spawned_actions)

lemma detected_exits_zero:
  "detected env = Some ssid \<Longrightarrow> \<not> exited_nonzero (proc_actions env wifi_list_command)"
  by (auto simp: detected_def proc_output_def proc_actions_def
      split: proc.splits option.splits if_splits)

lemma fetched_exits_zero:
  "fetched env = Some p \<Longrightarrow> \<not> exited_nonzero (fetch_actions env)"
  by (auto simp: fetched_def active_uuid_def proc_output_def proc_actions_def fetch_actions_def
      split: proc.splits option.splits if_splits)

lemma signal_exits_zero:
  "ssid_result env = Inl e \<Longrightarrow> \<not> exited_nonzero (proc_actions env wifi_list_command)"
  by (auto simp: ssid_result_def proc_signal_def proc_actions_def
      split: proc.splits option.splits if_splits)

lemma fetch_signal_exits_zero:
  "fetch_result env = Inl e \<Longrightarrow> \<not> exited_nonzero (fetch_actions env)"
  by (auto simp: fetch_result_def fetch_signal_def proc_signal_def active_uuid_def
      proc_output_def proc_actions_def fetch_actions_def
      split: proc.splits option.splits if_splits)

lemma main_last_if:
  "last (snd (main env)) =
     (if fst (main env) = Inr () then last (main_actions env) else last (snd (main env)))"
proof -
  obtain t1 where g: "get_current_ssid env = (ssid_result env, t1)"
    by (rule get_current_ssid_eq)
  have fetch: "\<And>ssid. \<exists>t2. get_wifi_password env ssid = (fetch_result env, t2)"
    by (metis get_wifi_password_eq)
  show ?thesis
  proof (cases "ssid_result env")
    case (Inl e)
    then show ?thesis
      by (simp add: main_def g main_actions_def ssid_tail_def seq_def try_except_def
          raise_def critical_error_def after_raise_def handled_def critical_dialog_def
          logger_def emit_def showerror_def
          split: exn.splits)
  next
    case (Inr found)
    show ?thesis
    proof (cases found)
      case None
      with Inr show ?thesis
        by (simp add: main_def g main_actions_def ssid_tail_def seq_def try_except_def
            no_ssid_def logger_def emit_def showerror_def no_ssid_dialog_def)
    next
      case (Some ssid)
      obtain t2 where w: "get_wifi_password env ssid = (fetch_result env, t2)"
        using fetch by blast
      from Inr Some show ?thesis
        by (simp add: main_def g w main_actions_def ssid_tail_def after_lookup_def
            after_fetch_def fetch_tail_def store_and_show_def
            after_raise_def handled_def critical_dialog_def not_found_dialog_def
            qr_window_def
            no_ssid_dialog_def fetch_and_cache_def keyring_get_password_def
            keyring_set_password_def show_qr_code_def password_not_found_def
            critical_error_def
            no_ssid_def truthy_def raise_def ret_def
            seq_def try_except_def logger_def emit_def showerror_def
            split: sum.splits option.splits exn.splits)
    qed
  qed
qed

lemma main_last:
  "fst (main env) = Inr () \<Longrightarrow> last (snd (main env)) = last (main_actions env)"
  using main_last_if [of env] by simp

lemma spawned_proc: "spawned (proc_actions env c) = [] \<or> spawned (proc_actions env c) = [c]"
  by (simp add: proc_actions_def split: proc.splits)

lemma spawned_fetch:
  "spawned (fetch_actions env) = []
   \<or> spawned (fetch_actions env) = [connection_list_command]
   \<or> (\<exists>u. spawned (fetch_actions env) = [connection_list_command, pkexec_command u])"
  by (auto simp: fetch_actions_def proc_actions_def spawned_append active_uuid_def
      proc_output_def split: proc.splits option.splits if_splits)

lemma spawned_tail:
  "spawned [no_ssid_dialog] = []"
  "spawned [not_found_dialog ssid] = []"
  "spawned (after_raise env e) = []"
  "spawned [qr_window ssid p] = []"
  "spawned (store_and_show env ssid p) = []"
  by (simp_all add: no_ssid_dialog_def not_found_dialog_def after_raise_def critical_dialog_def
      qr_window_def store_and_show_def split: option.splits)

lemma spawned_fetch_tail: "spawned (fetch_tail env ssid) = []"
  by (simp add: fetch_tail_def spawned_tail split: sum.splits option.splits)

lemma spawned_after_fetch: "spawned (after_fetch env ssid) = spawned (fetch_actions env)"
  by (simp add: after_fetch_def spawned_append spawned_fetch_tail)

lemma spawned_after_lookup:
  "spawned (after_lookup env ssid) = [] \<or>
   spawned (after_lookup env ssid) = spawned (fetch_actions env)"
  by (simp add: after_lookup_def spawned_after_fetch spawned_tail
      split: sum.splits option.splits)

lemma distinct_spawned_main: "distinct (spawned (main_actions env))"
proof -
  have a: "spawned (main_actions env) = spawned (proc_actions env wifi_list_command)
      \<or> spawned (main_actions env) =
          spawned (proc_actions env wifi_list_command) @ spawned (fetch_actions env)"
    using spawned_after_lookup
    by (auto simp: main_actions_def ssid_tail_def spawned_append spawned_tail
        split: sum.splits option.splits)
  from a spawned_proc [of env wifi_list_command] spawned_fetch [of env]
  show ?thesis
    using commands_distinct commands_distinct [symmetric] by auto
qed

lemma stops_proc:
  "stops_at_failure (proc_actions env c @ rest) =
     (case shell env c of
        SpawnRaises e \<Rightarrow> stops_at_failure rest
      | WaitRaises e \<Rightarrow> stops_at_failure rest
      | Exited rc out err \<Rightarrow> (rc = 0 \<or> spawned rest = []) \<and> stops_at_failure rest)"
  by (simp add: proc_actions_def split: proc.splits)

lemma stops_tail:
  "stops_at_failure [no_ssid_dialog]"
  "stops_at_failure [not_found_dialog ssid]"
  "stops_at_failure (after_raise env e)"
  "stops_at_failure [qr_window ssid p]"
  "stops_at_failure (store_and_show env ssid p)"
  by (simp_all add: no_ssid_dialog_def not_found_dialog_def after_raise_def critical_dialog_def
      qr_window_def store_and_show_def split: option.splits)

lemma stops_fetch_tail: "stops_at_failure (fetch_tail env ssid)"
  by (simp add: fetch_tail_def stops_tail split: sum.splits option.splits)

lemma stops_after_fetch: "stops_at_failure (after_fetch env ssid)"
  by (simp add: after_fetch_def fetch_actions_def active_uuid_def proc_output_def
      stops_proc stops_fetch_tail spawned_append spawned_fetch_tail proc_actions_def
      split: proc.splits option.splits)

lemma stops_after_lookup: "stops_at_failure (after_lookup env ssid)"
  by (simp add: after_lookup_def stops_after_fetch stops_tail
      split: sum.splits option.splits)

lemma stops_ssid_tail: "stops_at_failure (ssid_tail env)"
  by (simp add: ssid_tail_def stops_tail stops_after_lookup
      split: sum.splits option.splits)

lemma failed_listing_tail:
  "shell env wifi_list_command = Exited rc out err \<Longrightarrow>
     rc = 0 \<or> spawned (ssid_tail env) = []"
  by (simp add: ssid_tail_def ssid_result_def proc_signal_def detected_def proc_output_def
      spawned_tail)

lemma stops_main_actions: "stops_at_failure (main_actions env)"
proof (cases "shell env wifi_list_command")
  case (Exited rc out err)
  with failed_listing_tail [OF Exited] show ?thesis
    by (simp add: main_actions_def stops_proc stops_ssid_tail)
qed (simp_all add: main_actions_def stops_proc stops_ssid_tail)

lemma exited_tail:
  "\<not> exited_nonzero [no_ssid_dialog]"
  "\<not> exited_nonzero [not_found_dialog ssid]"
  "\<not> exited_nonzero (after_raise env e)"
  "\<not> exited_nonzero [qr_window ssid p]"
  "\<not> exited_nonzero (store_and_show env ssid p)"
  by (simp_all add: no_ssid_dialog_def not_found_dialog_def after_raise_def critical_dialog_def
      qr_window_def store_and_show_def split: option.splits)

lemma failure_dialog_actions:
  assumes "exited_nonzero (main_actions env) \<or> ssid_missing env \<or> password_missing env
           \<or> store_error env"
  shows "fst (main env) = Inr ()
     \<and> length (dialogs (main_actions env)) = 1
     \<and> windows (main_actions env) = []
     \<and> (\<exists>title message. last (main_actions env) = ShowError title message)"
proof (cases "ssid_result env")
  case (Inl e)
  have "\<not> exited_nonzero (main_actions env)"
    using Inl signal_exits_zero [of env e]
    by (simp add: main_actions_def ssid_tail_def exited_nonzero_append exited_tail)
  moreover have "\<not> ssid_missing env"
    using Inl by (simp add: ssid_missing_def get_current_ssid_result)
  moreover have "lookup env = None"
    using Inl by (simp add: lookup_def get_current_ssid_result)
  ultimately have False
    using assms by (simp add: password_missing_def store_error_def)
  then show ?thesis ..
next
  case (Inr found)
  show ?thesis
  proof (cases "truthy found")
    case False
    with Inr show ?thesis
      by (simp add: main_result main_actions_def ssid_tail_def dialogs_append windows_append
          proc_actions_quiet no_ssid_dialog_def truthy_def split: option.splits)
  next
    case True
    then obtain ssid where found: "found = Some ssid" and ne: "ssid \<noteq> []"
      by (auto simp: truthy_def split: option.splits)
    have sr: "ssid_result env = Inr (Some ssid)"
      using Inr found by simp
    then have d: "detected env = Some ssid"
      by (simp add: ssid_result_Inr)
    have quiet: "\<not> exited_nonzero (proc_actions env wifi_list_command)"
      using d by (rule detected_exits_zero)
    have missing: "\<not> ssid_missing env"
      using sr ne by (simp add: ssid_missing_def get_current_ssid_result truthy_def)
    have look: "lookup env = Some (ssid, kr_get env KEYRING_SERVICE_NAME ssid)"
      using sr ne by (simp add: lookup_def get_current_ssid_result)
    show ?thesis
    proof (cases "kr_get env KEYRING_SERVICE_NAME ssid")
      case (Inl e)
      have acts: "main_actions env =
          proc_actions env wifi_list_command @
          KeyringGet KEYRING_SERVICE_NAME ssid # after_raise env e"
        using sr ne Inl by (simp add: main_actions_def ssid_tail_def after_lookup_def)
      from assms quiet missing look Inl have h: "handled e"
        by (simp add: acts exited_nonzero_append exited_tail password_missing_def
            store_error_def)
      with sr ne Inl show ?thesis
        by (simp add: main_result acts dialogs_append windows_append proc_actions_quiet
            after_raise_def critical_dialog_def)
    next
      case (Inr cached)
      show ?thesis
      proof (cases "truthy cached")
        case True
        then obtain c where c: "cached = Some c" "c \<noteq> []"
          by (auto simp: truthy_def split: option.splits)
        have acts: "main_actions env =
            proc_actions env wifi_list_command @
            [KeyringGet KEYRING_SERVICE_NAME ssid, qr_window ssid c]"
          using sr ne Inr c by (simp add: main_actions_def ssid_tail_def after_lookup_def)
        from assms quiet missing look Inr True have False
          by (simp add: acts exited_nonzero_append qr_window_def password_missing_def
              store_error_def)
        then show ?thesis ..
      next
        case nt: False
        have acts: "main_actions env =
            proc_actions env wifi_list_command @
            KeyringGet KEYRING_SERVICE_NAME ssid # fetch_actions env @ fetch_tail env ssid"
          using sr ne Inr nt
          by (simp add: main_actions_def ssid_tail_def after_lookup_def after_fetch_def
              truthy_def split: option.splits)
        show ?thesis
        proof (cases "fetch_result env")
          case fl: (Inl e)
          have "\<not> exited_nonzero (main_actions env)"
            using quiet fl fetch_signal_exits_zero [of env e]
            by (simp add: acts fetch_tail_def exited_nonzero_append exited_tail)
          with assms missing look Inr nt fl have False
            by (simp add: password_missing_def store_error_def get_wifi_password_result)
          then show ?thesis ..
        next
          case fr: (Inr got)
          show ?thesis
          proof (cases "truthy got")
            case False
            with fr have tail: "fetch_tail env ssid = [not_found_dialog ssid]"
              by (simp add: fetch_tail_def truthy_def split: option.splits)
            from sr ne Inr nt fr False show ?thesis
              by (simp add: main_result acts tail dialogs_append windows_append
                  proc_actions_quiet fetch_actions_quiet not_found_dialog_def truthy_def
                  split: option.splits)
          next
            case True
            then obtain p where got: "got = Some p" and np: "p \<noteq> []"
              by (auto simp: truthy_def split: option.splits)
            have f: "fetch_result env = Inr (Some p)"
              using fr got by simp
            then have "fetched env = Some p"
              by (simp add: fetch_result_Inr)
            then have quiet2: "\<not> exited_nonzero (fetch_actions env)"
              by (rule fetched_exits_zero)
            have tail: "fetch_tail env ssid = store_and_show env ssid p"
              using f np by (simp add: fetch_tail_def)
            from assms quiet quiet2 missing look Inr nt f np
            obtain e where set_fails: "kr_set env KEYRING_SERVICE_NAME ssid p = Some e"
              and h: "handled e"
              by (auto simp: acts tail exited_nonzero_append exited_tail password_missing_def
                  store_error_def get_wifi_password_result truthy_def split: option.splits)
            from sr ne Inr nt f np set_fails h show ?thesis
              by (simp add: main_result acts tail dialogs_append windows_append
                  proc_actions_quiet fetch_actions_quiet store_and_show_def after_raise_def
                  critical_dialog_def)
          qed
        qed
      qed
    qed
  qed
qed

text \<open>
  C4, as stated, fails: the \<open>except\<close> clause of \<open>main\<close> names two classes,
  \<open>CalledProcessError\<close> and \<open>KeyringError\<close>. When the credential store raises an
  exception of another class, at the lookup or when the fetched password is stored,
  the exception leaves \<open>main\<close> and no dialog is shown.
\<close>

theorem main_store_error_uncaught_counterexample:
  "kr_get (sample_env ''yes:Home'' two_connections (Exited 0 ''secret'' [])
            (Inl OtherException) None)
     KEYRING_SERVICE_NAME ''Home'' = Inl OtherException
   \<and> fst (main (sample_env ''yes:Home'' two_connections (Exited 0 ''secret'' [])
                  (Inl OtherException) None)) = Inl OtherException
   \<and> dialogs (snd (main (sample_env ''yes:Home'' two_connections (Exited 0 ''secret'' [])
                           (Inl OtherException) None))) = []
   \<and> kr_set (sample_env ''yes:Home'' two_connections (Exited 0 ''secret'' [])
              (Inr None) (Some OtherException))
       KEYRING_SERVICE_NAME ''Home'' ''secret'' = Some OtherException
   \<and> fst (main (sample_env ''yes:Home'' two_connections (Exited 0 ''secret'' [])
                  (Inr None) (Some OtherException))) = Inl OtherException
   \<and> dialogs (snd (main (sample_env ''yes:Home'' two_connections (Exited 0 ''secret'' [])
                           (Inr None) (Some OtherException)))) = []"
  by code_simp

text \<open>
  C4, amended. In every run of \<open>main\<close> in which a command ends with a return code
  other than 0, or no SSID is detected, or no password is found, or the credential
  store raises an exception of a class that the \<open>except\<close> clause of \<open>main\<close> names
  (\<open>KeyringError\<close>, the base class of the keyring library's errors, or
  \<open>CalledProcessError\<close>), at the lookup or when the fetched password is stored,
  \<open>main\<close> returns normally, exactly one error dialog has been shown, it is the last
  event of the run, and no QR window has been shown. No command is retried: in every
  run the commands started are pairwise different, and after a command that ended with
  a code other than 0 no command is started.
\<close>

theorem failure_shows_one_dialog:
  "(exited_nonzero (snd (main env)) \<or> ssid_missing env \<or> password_missing env
      \<or> store_error env \<longrightarrow>
       fst (main env) = Inr ()
     \<and> length (dialogs (snd (main env))) = 1
     \<and> windows (snd (main env)) = []
     \<and> (\<exists>title message. last (snd (main env)) = ShowError title message))
   \<and> distinct (spawned (snd (main env)))
   \<and> stops_at_failure (snd (main env))"
proof (intro conjI impI)
  assume "exited_nonzero (snd (main env)) \<or> ssid_missing env \<or> password_missing env
      \<or> store_error env"
  then have "exited_nonzero (main_actions env) \<or> ssid_missing env \<or> password_missing env
      \<or> store_error env"
    by (simp add: main_actions_eq [symmetric] exited_nonzero_actions)
  then have "fst (main env) = Inr ()
     \<and> length (dialogs (main_actions env)) = 1
     \<and> windows (main_actions env) = []
     \<and> (\<exists>title message. last (main_actions env) = ShowError title message)"
    by (rule failure_dialog_actions)
  then show "fst (main env) = Inr ()"
    and "length (dialogs (snd (main env))) = 1"
    and "windows (snd (main env)) = []"
    and "\<exists>title message. last (snd (main env)) = ShowError title message"
    by (simp_all add: main_actions_eq [symmetric] dialogs_actions windows_actions main_last)
next
  have "distinct (spawned (actions (snd (main env))))"
    by (simp add: main_actions_eq distinct_spawned_main)
  then show "distinct (spawned (snd (main env)))"
    by (simp add: spawned_actions)
next
  have "stops_at_failure (actions (snd (main env)))"
    by (simp add: main_actions_eq stops_main_actions)
  then show "stops_at_failure (snd (main env))"
    by (simp add: stops_at_failure_actions)
qed

theorem failure_shows_one_dialog_witness:
  "exited_nonzero (snd (main
          (sample_env ''yes:Home'' two_connections (Exited 126 [] ''dismissed'') (Inr None) None)))
   \<and> fst (main
          (sample_env ''yes:Home'' two_connections (Exited 126 [] ''dismissed'') (Inr None) None)) = Inr ()
   \<and> length (dialogs (snd (main
          (sample_env ''yes:Home'' two_connections (Exited 126 [] ''dismissed'') (Inr None) None)))) = 1
   \<and> windows (snd (main
          (sample_env ''yes:Home'' two_connections (Exited 126 [] ''dismissed'') (Inr None) None))) = []
   \<and> (\<exists>title message. last (snd (main
          (sample_env ''yes:Home'' two_connections (Exited 126 [] ''dismissed'') (Inr None) None))) = ShowError title message)
   \<and> ssid_missing
          (sample_env ''no:Cafe'' two_connections (Exited 0 ''secret'' []) (Inr None) None)
   \<and> fst (main
          (sample_env ''no:Cafe'' two_connections (Exited 0 ''secret'' []) (Inr None) None)) = Inr ()
   \<and> length (dialogs (snd (main
          (sample_env ''no:Cafe'' two_connections (Exited 0 ''secret'' []) (Inr None) None)))) = 1
   \<and> windows (snd (main
          (sample_env ''no:Cafe'' two_connections (Exited 0 ''secret'' []) (Inr None) None))) = []
   \<and> (\<exists>title message. last (snd (main
          (sample_env ''no:Cafe'' two_connections (Exited 0 ''secret'' []) (Inr None) None))) = ShowError title message)
   \<and> password_missing
          (sample_env ''yes:Home'' ''no:u0'' (Exited 0 ''secret'' []) (Inr None) None)
   \<and> fst (main
          (sample_env ''yes:Home'' ''no:u0'' (Exited 0 ''secret'' []) (Inr None) None)) = Inr ()
   \<and> length (dialogs (snd (main
          (sample_env ''yes:Home'' ''no:u0'' (Exited 0 ''secret'' []) (Inr None) None)))) = 1
   \<and> windows (snd (main
          (sample_env ''yes:Home'' ''no:u0'' (Exited 0 ''secret'' []) (Inr None) None))) = []
   \<and> (\<exists>title message. last (snd (main
          (sample_env ''yes:Home'' ''no:u0'' (Exited 0 ''secret'' []) (Inr None) None))) = ShowError title message)
   \<and> store_error
          (sample_env ''yes:Home'' two_connections (Exited 0 ''secret'' []) (Inl KeyringError) None)
   \<and> fst (main
          (sample_env ''yes:Home'' two_connections (Exited 0 ''secret'' []) (Inl KeyringError) None)) = Inr ()
   \<and> length (dialogs (snd (main
          (sample_env ''yes:Home'' two_connections (Exited 0 ''secret'' []) (Inl KeyringError) None)))) = 1
   \<and> windows (snd (main
          (sample_env ''yes:Home'' two_connections (Exited 0 ''secret'' []) (Inl KeyringError) None))) = []
   \<and> (\<exists>title message. last (snd (main
          (sample_env ''yes:Home'' two_connections (Exited 0 ''secret'' []) (Inl KeyringError) None))) = ShowError title message)
   \<and> store_error
          (sample_env ''yes:Home'' two_connections (Exited 0 ''secret'' []) (Inr None) (Some KeyringError))
   \<and> fst (main
          (sample_env ''yes:Home'' two_connections (Exited 0 ''secret'' []) (Inr None) (Some KeyringError))) = Inr ()
   \<and> length (dialogs (snd (main
          (sample_env ''yes:Home'' two_connections (Exited 0 ''secret'' []) (Inr None) (Some KeyringError))))) = 1
   \<and> windows (snd (main
          (sample_env ''yes:Home'' two_connections (Exited 0 ''secret'' []) (Inr None) (Some KeyringError)))) = []
   \<and> (\<exists>title message. last (snd (main
          (sample_env ''yes:Home'' two_connections (Exited 0 ''secret'' []) (Inr None) (Some KeyringError)))) = ShowError title message)"
proof -
  let ?A = "sample_env ''yes:Home'' two_connections (Exited 126 [] ''dismissed'') (Inr None) None"
  let ?B = "sample_env ''no:Cafe'' two_connections (Exited 0 ''secret'' []) (Inr None) None"
  let ?C = "sample_env ''yes:Home'' ''no:u0'' (Exited 0 ''secret'' []) (Inr None) None"
  let ?D = "sample_env ''yes:Home'' two_connections (Exited 0 ''secret'' []) (Inl KeyringError) None"
  let ?E = "sample_env ''yes:Home'' two_connections (Exited 0 ''secret'' []) (Inr None) (Some KeyringError)"
  have h0: "exited_nonzero (snd (main ?A))"
    by code_simp
  from failure_shows_one_dialog [of ?A] h0
  have c0: "fst (main ?A) = Inr () \<and> length (dialogs (snd (main ?A))) = 1 \<and> windows (snd (main ?A)) = [] \<and> (\<exists>title message. last (snd (main ?A)) = ShowError title message)"
    by blast
  have h1: "ssid_missing ?B"
    by code_simp
  from failure_shows_one_dialog [of ?B] h1
  have c1: "fst (main ?B) = Inr () \<and> length (dialogs (snd (main ?B))) = 1 \<and> windows (snd (main ?B)) = [] \<and> (\<exists>title message. last (snd (main ?B)) = ShowError title message)"
    by blast
  have h2: "password_missing ?C"
    by code_simp
  from failure_shows_one_dialog [of ?C] h2
  have c2: "fst (main ?C) = Inr () \<and> length (dialogs (snd (main ?C))) = 1 \<and> windows (snd (main ?C)) = [] \<and> (\<exists>title message. last (snd (main ?C)) = ShowError title message)"
    by blast
  have h3: "store_error ?D"
    by code_simp
  from failure_shows_one_dialog [of ?D] h3
  have c3: "fst (main ?D) = Inr () \<and> length (dialogs (snd (main ?D))) = 1 \<and> windows (snd (main ?D)) = [] \<and> (\<exists>title message. last (snd (main ?D)) = ShowError title message)"
    by blast
  have h4: "store_error ?E"
    by code_simp
  from failure_shows_one_dialog [of ?E] h4
  have c4: "fst (main ?E) = Inr () \<and> length (dialogs (snd (main ?E))) = 1 \<and> windows (snd (main ?E)) = [] \<and> (\<exists>title message. last (snd (main ?E)) = ShowError title message)"
    by blast
  from h0 c0 h1 c1 h2 c2 h3 c3 h4 c4 show ?thesis
    by simp
qed

end
